theory Spec2Isabelle
  imports Main "HOL-Library.AList"
begin

section \<open>Regions of a toroidal grid (xbout/region.py)\<close>

subsection \<open>Slices and the Region class\<close>

text \<open>
  A Python \<open>slice(start, stop)\<close> with no step. The functions below only build slice
  objects, they never apply them to an array, so a slice is the pair of its two bounds.
\<close>

datatype slice = Slice (start: int) (stop: int)

text \<open>The half-open index range a slice with non-negative bounds selects.\<close>

definition slice_indices :: "slice \<Rightarrow> int set" where
  "slice_indices s = {i. start s \<le> i \<and> i < stop s}"

text \<open>
  Class \<open>Region\<close>: the attributes set by \<open>__init__\<close>. Python integers are unbounded,
  so the four indices are of type \<open>int\<close>; a connection is \<open>None\<close> or the dictionary key
  of the neighbouring region.
\<close>

record Region =
  name :: string
  xinner_ind :: int
  xouter_ind :: int
  ylower_ind :: int
  yupper_ind :: int
  connection_inner :: "string option"
  connection_outer :: "string option"
  connection_lower :: "string option"
  connection_upper :: "string option"

text \<open>\<open>Region.__init__\<close> as the tables call it: the four connections keep their default \<open>None\<close>.\<close>

definition Region_init :: "string \<Rightarrow> int \<Rightarrow> int \<Rightarrow> int \<Rightarrow> int \<Rightarrow> Region" where
  "Region_init n xi xo yl yu =
     \<lparr>name = n, xinner_ind = xi, xouter_ind = xo, ylower_ind = yl, yupper_ind = yu,
      connection_inner = None, connection_outer = None,
      connection_lower = None, connection_upper = None\<rparr>"

text \<open>
  \<open>Region.getSlices\<close>, statement by statement. The second \<open>if\<close> of the source adds
  \<open>mxg\<close> to \<open>xi\<close> (the source line reads \<open>xi += mxg\<close>), and \<open>xo\<close> is returned as it was read.
\<close>

definition getSlices :: "Region \<Rightarrow> int \<Rightarrow> int \<Rightarrow> slice \<times> slice" where
  "getSlices self mxg myg =
     (let xi = xinner_ind self;
          xi = (if connection_inner self \<noteq> None then xi - mxg else xi);
          xo = xouter_ind self;
          xi = (if connection_outer self \<noteq> None then xi + mxg else xi);
          yl = ylower_ind self;
          yl = (if connection_lower self \<noteq> None then yl - myg else yl);
          yu = yupper_ind self;
          yu = (if connection_upper self \<noteq> None then yu + myg else yu)
      in (Slice xi xo, Slice yl yu))"

definition getInnerGuardsSlices :: "Region \<Rightarrow> int \<Rightarrow> slice \<times> slice" where
  "getInnerGuardsSlices self mxg =
     (Slice (xinner_ind self - mxg) (xinner_ind self),
      Slice (ylower_ind self) (yupper_ind self))"

definition getOuterGuardsSlices :: "Region \<Rightarrow> int \<Rightarrow> slice \<times> slice" where
  "getOuterGuardsSlices self mxg =
     (Slice (xouter_ind self) (xouter_ind self + mxg),
      Slice (ylower_ind self) (yupper_ind self))"

definition getLowerGuardsSlices :: "Region \<Rightarrow> int \<Rightarrow> slice \<times> slice" where
  "getLowerGuardsSlices self myg =
     (Slice (xinner_ind self) (xouter_ind self),
      Slice (ylower_ind self - myg) (ylower_ind self))"

definition getUpperGuardsSlices :: "Region \<Rightarrow> int \<Rightarrow> slice \<times> slice" where
  "getUpperGuardsSlices self myg =
     (Slice (xinner_ind self) (xouter_ind self),
      Slice (yupper_ind self) (yupper_ind self + myg))"

subsection \<open>Helpers and the topology classifier\<close>

definition in_range :: "int \<Rightarrow> int \<Rightarrow> int \<Rightarrow> int" where
  "in_range val lower upper =
     (if val < lower then lower
      else if val > upper then upper
      else val)"

definition order_vars :: "int \<Rightarrow> int \<Rightarrow> int \<times> int" where
  "order_vars lower upper =
     (if upper < lower then (upper, lower)
      else (lower, upper))"

text \<open>
  \<open>ds.metadata\<close>, restricted to the keys the two functions read with \<open>ds.metadata[...]\<close>.
  A metadata value is a mapping that contains all of them: a missing key raises
  \<open>KeyError\<close> at the first statement that reads it, before any region is built. The two
  \<open>keep_*boundaries\<close> entries are integers, as the source multiplies one of them
  and tests the other with \<open>not\<close>.
\<close>

record metadata =
  nx :: int
  ny :: int
  ny_inner :: int
  ixseps1 :: int
  ixseps2 :: int
  jyseps1_1 :: int
  jyseps2_1 :: int
  jyseps1_2 :: int
  jyseps2_2 :: int
  MXG :: int
  MYG :: int
  keep_xboundaries :: int
  keep_yboundaries :: int

definition get_topology :: "metadata \<Rightarrow> string" where
  "get_topology md =
     (let jys11 = jyseps1_1 md;
          jys21 = jyseps2_1 md;
          jys12 = jyseps1_2 md;
          jys22 = jyseps2_2 md;
          ny = ny md;
          ixs1 = ixseps1 md;
          ixs2 = ixseps2 md;
          nx = nx md
      in if jys21 = jys12 then
           (if jys11 \<le> 0 \<and> jys22 \<ge> ny - 1 then
              (let ix = min ixs1 ixs2
               in if ix \<ge> nx - 1 then ''core''
                  else if ix \<le> 0 then ''sol''
                  else ''limiter'')
            else ''single-null'')
         else if jys11 = jys21 \<and> jys12 = jys22 then ''xpoint''
         else if ixs1 = ixs2 then ''connected-double-null''
         else ''disconnected-double-null'')"


subsection \<open>Index preprocessing of \<open>_create_regions_toroidal\<close>\<close>

text \<open>
  The local variables of \<open>_create_regions_toroidal\<close> that the region tables read, after
  the statements under "Make sure all sizes are sensible" and "Adjust for boundary cells".
  \<open>nx'\<close> and \<open>ny'\<close> are the locals \<open>nx\<close> and \<open>ny\<close> (the primes keep them apart from the
  metadata entries of the same name).
\<close>

record locals =
  ixs1 :: int
  ixs2 :: int
  nx' :: int
  jys11 :: int
  jys21 :: int
  nyinner :: int
  jys12 :: int
  jys22 :: int
  ny' :: int

text \<open>
  The statements of \<open>_create_regions_toroidal\<close> from the first metadata read to
  \<open>ny += 4*ybndry\<close>, in the order of the source; each \<open>let\<close> binding is one assignment
  and shadows the earlier value of the same name. Python's \<open>not v\<close> on an integer is
  \<open>v = 0\<close>.
\<close>

definition adjusted_indices :: "metadata \<Rightarrow> locals" where
  "adjusted_indices md =
     (let ixs1 = ixseps1 md;
          ixs2 = ixseps2 md;
          nx = nx md;
          jys11 = jyseps1_1 md;
          jys21 = jyseps2_1 md;
          nyinner = ny_inner md;
          jys12 = jyseps1_2 md;
          jys22 = jyseps2_2 md;
          ny = ny md;
          mxg = MXG md;
          myg = MYG md;
          ybndry = keep_yboundaries md * myg;
          ixs1 = in_range ixs1 0 nx;
          ixs2 = in_range ixs2 0 nx;
          (ixs1, ixs2) = order_vars ixs1 ixs2;
          jys11 = in_range jys11 0 (ny - 1);
          jys21 = in_range jys21 0 (ny - 1);
          jys12 = in_range jys12 0 (ny - 1);
          (jys21, jys12) = order_vars jys21 jys12;
          nyinner = in_range nyinner (jys21 + 1) (jys12 + 1);
          jys22 = in_range jys22 0 (ny - 1);
          (ixs1, ixs2, nx) =
            (if keep_xboundaries md = 0 then (ixs1 - mxg, ixs2 - mxg, nx - 2 * mxg)
             else (ixs1, ixs2, nx));
          jys11 = jys11 + ybndry;
          jys21 = jys21 + ybndry;
          nyinner = nyinner + 2 * ybndry;
          jys12 = jys12 + 3 * ybndry;
          jys22 = jys22 + 3 * ybndry;
          ny = ny + 4 * ybndry
      in \<lparr>ixs1 = ixs1, ixs2 = ixs2, nx' = nx, jys11 = jys11, jys21 = jys21,
          nyinner = nyinner, jys12 = jys12, jys22 = jys22, ny' = ny\<rparr>)"

subsection \<open>The region dictionary and its connections\<close>

text \<open>
  The dictionary \<open>regions\<close>: string keys in insertion order. \<open>regions[k] = v\<close> replaces
  the value of a key that is present and appends a new key otherwise, which is
  \<open>AList.update\<close>; \<open>regions[k]\<close> on a key that is absent raises \<open>KeyError\<close>.
\<close>

type_synonym regions = "(string \<times> Region) list"

datatype error = KeyError string | NotImplementedError string

definition setitem :: "regions \<Rightarrow> string \<Rightarrow> Region \<Rightarrow> regions" where
  "setitem regions k v = AList.update k v regions"

text \<open>
  \<open>regions[inner].connection_outer = outer\<close> and then
  \<open>regions[outer].connection_inner = inner\<close>: the second statement reads the dictionary
  the first one has changed, which matters when both keys are the same.
\<close>

definition create_connection_x :: "regions \<Rightarrow> string \<Rightarrow> string \<Rightarrow> error + regions" where
  "create_connection_x regions inner outer =
     (case map_of regions inner of
        None \<Rightarrow> Inl (KeyError inner)
      | Some r \<Rightarrow>
          (let regions = setitem regions inner (r\<lparr>connection_outer := Some outer\<rparr>)
           in case map_of regions outer of
                None \<Rightarrow> Inl (KeyError outer)
              | Some r' \<Rightarrow> Inr (setitem regions outer (r'\<lparr>connection_inner := Some inner\<rparr>))))"

definition create_connection_y :: "regions \<Rightarrow> string \<Rightarrow> string \<Rightarrow> error + regions" where
  "create_connection_y regions lower upper =
     (case map_of regions lower of
        None \<Rightarrow> Inl (KeyError lower)
      | Some r \<Rightarrow>
          (let regions = setitem regions lower (r\<lparr>connection_upper := Some upper\<rparr>)
           in case map_of regions upper of
                None \<Rightarrow> Inl (KeyError upper)
              | Some r' \<Rightarrow> Inr (setitem regions upper (r'\<lparr>connection_lower := Some lower\<rparr>))))"

text \<open>
  A branch of \<open>_create_regions_toroidal\<close> is a run of assignments
  \<open>regions[key] = Region(name=..., ...)\<close> followed by a run of calls of
  \<open>_create_connection_x\<close> and \<open>_create_connection_y\<close>. \<open>assign_all\<close> executes the first run
  on a dictionary, \<open>create_connections\<close> the second, stopping at the first exception.
\<close>

datatype connection = Connect_x string string | Connect_y string string

fun assign_all :: "(string \<times> Region) list \<Rightarrow> regions \<Rightarrow> regions" where
  "assign_all [] regions = regions"
| "assign_all ((k, v) # kvs) regions = assign_all kvs (setitem regions k v)"

fun create_connections :: "connection list \<Rightarrow> regions \<Rightarrow> error + regions" where
  "create_connections [] regions = Inr regions"
| "create_connections (Connect_x inner outer # cs) regions =
     (case create_connection_x regions inner outer of
        Inl e \<Rightarrow> Inl e
      | Inr regions' \<Rightarrow> create_connections cs regions')"
| "create_connections (Connect_y lower upper # cs) regions =
     (case create_connection_y regions lower upper of
        Inl e \<Rightarrow> Inl e
      | Inr regions' \<Rightarrow> create_connections cs regions')"

subsection \<open>The seven region tables\<close>

text \<open>
  For each branch of the \<open>if topology == ...\<close> chain: the assignments, as pairs of the
  dictionary key and the Region constructed (with its \<open>name\<close> argument as the source
  writes it), and the connection calls, both in source order.
\<close>

definition table_disconnected_double_null :: "locals \<Rightarrow> (string \<times> Region) list" where
  "table_disconnected_double_null l =
     [(''lower_inner_PFR'', Region_init ''lower_inner_PFR'' 0 (ixs1 l) 0 (jys11 l + 1)),
      (''lower_inner_intersep'', Region_init ''lower_inner_intersep'' (ixs1 l) (ixs2 l) 0 (jys11 l + 1)),
      (''lower_inner_SOL'', Region_init ''lower_inner_SOL'' (ixs2 l) (nx' l) 0 (jys11 l + 1)),
      (''inner_core'', Region_init ''inner_core'' 0 (ixs1 l) (jys11 l + 1) (jys21 l + 1)),
      (''inner_intersep'', Region_init ''inner_intersep'' (ixs1 l) (ixs2 l) (jys11 l + 1) (jys21 l + 1)),
      (''inner_SOL'', Region_init ''inner_SOL'' (ixs2 l) (nx' l) (jys11 l + 1) (jys21 l + 1)),
      (''upper_inner_PFR'', Region_init ''upper_inner_PFR'' 0 (ixs1 l) (jys21 l + 1) (nyinner l)),
      (''upper_inner_intersep'', Region_init ''upper_inner_intersep'' (ixs1 l) (ixs2 l) (jys21 l + 1) (nyinner l)),
      (''upper_inner_SOL'', Region_init ''upper_inner_SOL'' (ixs2 l) (nx' l) (jys21 l + 1) (nyinner l)),
      (''upper_outer_PFR'', Region_init ''upper_outer_PFR'' 0 (ixs1 l) (nyinner l) (jys12 l + 1)),
      (''upper_outer_intersep'', Region_init ''upper_outer_intersep'' (ixs1 l) (ixs2 l) (nyinner l) (jys12 l + 1)),
      (''upper_outer_SOL'', Region_init ''upper_outer_SOL'' (ixs2 l) (nx' l) (nyinner l) (jys12 l + 1)),
      (''outer_core'', Region_init ''outer_core'' 0 (ixs1 l) (jys12 l + 1) (jys22 l + 1)),
      (''outer_intersep'', Region_init ''outer_intersep'' (ixs1 l) (ixs2 l) (jys12 l + 1) (jys22 l + 1)),
      (''outer_SOL'', Region_init ''outer_SOL'' (ixs2 l) (nx' l) (jys12 l + 1) (jys22 l + 1)),
      (''lower_outer_PFR'', Region_init ''lower_outer_PFR'' 0 (ixs1 l) (jys22 l + 1) (ny' l)),
      (''lower_outer_intersep'', Region_init ''lower_outer_intersep'' (ixs1 l) (ixs2 l) (jys22 l + 1) (ny' l)),
      (''lower_outer_SOL'', Region_init ''lower_outer_SOL'' (ixs2 l) (nx' l) (jys22 l + 1) (ny' l))]"

definition wiring_disconnected_double_null :: "connection list" where
  "wiring_disconnected_double_null =
     [Connect_x ''lower_inner_PFR'' ''lower_inner_intersep'',
      Connect_x ''lower_inner_intersep'' ''lower_inner_SOL'',
      Connect_x ''inner_core'' ''inner_intersep'',
      Connect_x ''inner_intersep'' ''inner_SOL'',
      Connect_x ''upper_inner_PFR'' ''upper_inner_intersep'',
      Connect_x ''upper_inner_intersep'' ''upper_inner_SOL'',
      Connect_x ''upper_outer_PFR'' ''upper_outer_intersep'',
      Connect_x ''upper_outer_intersep'' ''upper_outer_SOL'',
      Connect_x ''outer_core'' ''outer_intersep'',
      Connect_x ''outer_intersep'' ''outer_SOL'',
      Connect_x ''lower_outer_PFR'' ''lower_outer_intersep'',
      Connect_x ''lower_outer_intersep'' ''lower_outer_SOL'',
      Connect_y ''lower_inner_PFR'' ''lower_outer_PFR'',
      Connect_y ''lower_inner_intersep'' ''inner_intersep'',
      Connect_y ''lower_inner_SOL'' ''inner_SOL'',
      Connect_y ''inner_core'' ''outer_core'',
      Connect_y ''outer_core'' ''inner_core'',
      Connect_y ''inner_intersep'' ''outer_intersep'',
      Connect_y ''inner_SOL'' ''upper_inner_SOL'',
      Connect_y ''upper_outer_intersep'' ''upper_inner_intersep'',
      Connect_y ''upper_outer_PFR'' ''upper_inner_PFR'',
      Connect_y ''upper_outer_SOL'' ''outer_SOL'',
      Connect_y ''outer_intersep'' ''lower_outer_intersep'',
      Connect_y ''outer_SOL'' ''lower_outer_SOL'']"

definition table_connected_double_null :: "locals \<Rightarrow> (string \<times> Region) list" where
  "table_connected_double_null l =
     [(''lower_inner_PFR'', Region_init ''lower_inner_PFR'' 0 (ixs1 l) 0 (jys11 l + 1)),
      (''lower_inner_SOL'', Region_init ''lower_inner_SOL'' (ixs2 l) (nx' l) 0 (jys11 l + 1)),
      (''inner_core'', Region_init ''inner_core'' 0 (ixs1 l) (jys11 l + 1) (jys21 l + 1)),
      (''inner_SOL'', Region_init ''inner_SOL'' (ixs2 l) (nx' l) (jys11 l + 1) (jys21 l + 1)),
      (''upper_inner_PFR'', Region_init ''upper_inner_PFR'' 0 (ixs1 l) (jys21 l + 1) (nyinner l)),
      (''upper_inner_SOL'', Region_init ''upper_inner_SOL'' (ixs2 l) (nx' l) (jys21 l + 1) (nyinner l)),
      (''upper_outer_PFR'', Region_init ''upper_outer_PFR'' 0 (ixs1 l) (nyinner l) (jys12 l + 1)),
      (''upper_outer_SOL'', Region_init ''upper_outer_SOL'' (ixs2 l) (nx' l) (nyinner l) (jys12 l + 1)),
      (''outer_core'', Region_init ''outer_core'' 0 (ixs1 l) (jys12 l + 1) (jys22 l + 1)),
      (''outer_SOL'', Region_init ''outer_SOL'' (ixs2 l) (nx' l) (jys12 l + 1) (jys22 l + 1)),
      (''lower_outer_PFR'', Region_init ''lower_outer_PFR'' 0 (ixs1 l) (jys22 l + 1) (ny' l)),
      (''lower_outer_SOL'', Region_init ''lower_outer_SOL'' (ixs2 l) (nx' l) (jys22 l + 1) (ny' l))]"

definition wiring_connected_double_null :: "connection list" where
  "wiring_connected_double_null =
     [Connect_x ''lower_inner_PFR'' ''lower_inner_SOL'',
      Connect_x ''inner_core'' ''inner_SOL'',
      Connect_x ''upper_inner_PFR'' ''upper_inner_SOL'',
      Connect_x ''upper_outer_PFR'' ''upper_outer_SOL'',
      Connect_x ''outer_core'' ''outer_SOL'',
      Connect_x ''lower_outer_PFR'' ''lower_outer_SOL'',
      Connect_y ''lower_inner_PFR'' ''lower_outer_PFR'',
      Connect_y ''lower_inner_SOL'' ''inner_SOL'',
      Connect_y ''inner_core'' ''outer_core'',
      Connect_y ''outer_core'' ''inner_core'',
      Connect_y ''inner_SOL'' ''upper_inner_SOL'',
      Connect_y ''upper_outer_PFR'' ''upper_inner_PFR'',
      Connect_y ''upper_outer_SOL'' ''outer_SOL'',
      Connect_y ''outer_SOL'' ''lower_outer_SOL'']"

definition table_single_null :: "locals \<Rightarrow> (string \<times> Region) list" where
  "table_single_null l =
     [(''inner_PFR'', Region_init ''inner_PFR'' 0 (ixs1 l) 0 (jys11 l + 1)),
      (''inner_SOL'', Region_init ''inner_SOL'' (ixs1 l) (nx' l) 0 (jys11 l + 1)),
      (''core'', Region_init ''core'' 0 (ixs1 l) (jys11 l + 1) (jys22 l + 1)),
      (''SOL'', Region_init ''SOL'' (ixs2 l) (nx' l) (jys11 l + 1) (jys22 l + 1)),
      (''outer_PFR'', Region_init ''lower_PFR'' 0 (ixs1 l) (jys22 l + 1) (ny' l)),
      (''outer_SOL'', Region_init ''lower_SOL'' (ixs1 l) (nx' l) (jys22 l + 1) (ny' l))]"

definition wiring_single_null :: "connection list" where
  "wiring_single_null =
     [Connect_x ''inner_PFR'' ''inner_SOL'',
      Connect_x ''core'' ''SOL'',
      Connect_x ''outer_PFR'' ''outer_SOL'',
      Connect_y ''inner_PFR'' ''outer_PFR'',
      Connect_y ''inner_SOL'' ''SOL'',
      Connect_y ''core'' ''core'',
      Connect_y ''SOL'' ''outer_SOL'']"

definition table_limiter :: "locals \<Rightarrow> (string \<times> Region) list" where
  "table_limiter l =
     [(''core'', Region_init ''core'' 0 (ixs1 l) 0 (ny' l)),
      (''SOL'', Region_init ''SOL'' (ixs1 l) (nx' l) 0 (ny' l))]"

definition wiring_limiter :: "connection list" where
  "wiring_limiter =
     [Connect_x ''core'' ''SOL'',
      Connect_y ''core'' ''core'']"

definition table_core :: "locals \<Rightarrow> (string \<times> Region) list" where
  "table_core l =
     [(''core'', Region_init ''core'' 0 (nx' l) 0 (ny' l))]"

definition wiring_core :: "connection list" where
  "wiring_core =
     [Connect_y ''core'' ''core'']"

definition table_sol :: "locals \<Rightarrow> (string \<times> Region) list" where
  "table_sol l =
     [(''sol'', Region_init ''sol'' 0 (nx' l) 0 (ny' l))]"

definition wiring_sol :: "connection list" where
  "wiring_sol =
     []"

definition table_xpoint :: "locals \<Rightarrow> (string \<times> Region) list" where
  "table_xpoint l =
     [(''lower_inner_PFR'', Region_init ''lower_inner_PFR'' 0 (ixs1 l) 0 (jys11 l + 1)),
      (''lower_inner_SOL'', Region_init ''lower_inner_SOL'' (ixs1 l) (nx' l) 0 (jys11 l + 1)),
      (''upper_inner_PFR'', Region_init ''upper_inner_PFR'' 0 (ixs1 l) (jys11 l + 1) (nyinner l)),
      (''upper_inner_SOL'', Region_init ''upper_inner_SOL'' (ixs1 l) (nx' l) (jys11 l + 1) (nyinner l)),
      (''upper_outer_PFR'', Region_init ''upper_outer_PFR'' 0 (ixs1 l) (nyinner l) (jys22 l + 1)),
      (''upper_outer_SOL'', Region_init ''upper_outer_SOL'' (ixs1 l) (nx' l) (nyinner l) (jys22 l + 1)),
      (''lower_outer_PFR'', Region_init ''lower_outer_PFR'' 0 (ixs1 l) (jys22 l + 1) (ny' l)),
      (''lower_outer_SOL'', Region_init ''lower_outer_SOL'' (ixs1 l) (nx' l) (jys22 l + 1) (ny' l))]"

definition wiring_xpoint :: "connection list" where
  "wiring_xpoint =
     [Connect_x ''lower_inner_PFR'' ''lower_inner_SOL'',
      Connect_x ''upper_inner_PFR'' ''upper_inner_SOL'',
      Connect_x ''upper_outer_PFR'' ''upper_outer_SOL'',
      Connect_x ''lower_outer_PFR'' ''lower_outer_SOL'',
      Connect_y ''lower_inner_PFR'' ''lower_outer_PFR'',
      Connect_y ''lower_inner_SOL'' ''upper_inner_SOL'',
      Connect_y ''upper_outer_PFR'' ''upper_inner_PFR'',
      Connect_y ''upper_outer_SOL'' ''lower_outer_SOL'']"

text \<open>
  \<open>_create_regions_toroidal\<close>. The source ends by attaching \<open>regions\<close> to the dataset
  and returning the dataset; the model returns the dictionary that is attached.
\<close>

definition create_regions_toroidal :: "metadata \<Rightarrow> error + regions" where
  "create_regions_toroidal md =
     (let topology = get_topology md;
          l = adjusted_indices md
      in if topology = ''disconnected-double-null'' then
           create_connections wiring_disconnected_double_null
             (assign_all (table_disconnected_double_null l) [])
         else if topology = ''connected-double-null'' then
           create_connections wiring_connected_double_null
             (assign_all (table_connected_double_null l) [])
         else if topology = ''single-null'' then
           create_connections wiring_single_null (assign_all (table_single_null l) [])
         else if topology = ''limiter'' then
           create_connections wiring_limiter (assign_all (table_limiter l) [])
         else if topology = ''core'' then
           create_connections wiring_core (assign_all (table_core l) [])
         else if topology = ''sol'' then
           create_connections wiring_sol (assign_all (table_sol l) [])
         else if topology = ''xpoint'' then
           create_connections wiring_xpoint (assign_all (table_xpoint l) [])
         else Inl (NotImplementedError
                (''Topology '' @ [CHR 0x27] @ topology @ [CHR 0x27] @ '' is not implemented'')))"

section \<open>Notions the properties are stated in\<close>

subsection \<open>Rectangles and coverage\<close>

text \<open>
  A region bounds the half-open rectangle \<open>[xinner_ind, xouter_ind) \<times> [ylower_ind, yupper_ind)\<close>
  of global indices. \<open>regions_covering regions x y\<close> lists the keys of the regions whose
  rectangle holds the index pair \<open>(x, y)\<close>: the rectangles partition a domain when this
  list has exactly one element for each pair inside the domain and none for a pair outside.
\<close>

definition region_contains :: "Region \<Rightarrow> int \<Rightarrow> int \<Rightarrow> bool" where
  "region_contains r x y =
     (xinner_ind r \<le> x \<and> x < xouter_ind r \<and> ylower_ind r \<le> y \<and> y < yupper_ind r)"

fun regions_covering :: "regions \<Rightarrow> int \<Rightarrow> int \<Rightarrow> string list" where
  "regions_covering [] x y = []"
| "regions_covering ((k, r) # regions) x y =
     (if region_contains r x y then k # regions_covering regions x y
      else regions_covering regions x y)"

text \<open>
  The breakpoints that the table of a topology reads are in non-decreasing order, from
  \<open>0\<close> to the adjusted \<open>nx\<close> in x and from \<open>0\<close> to the adjusted \<open>ny\<close> in y. The single-null table
  reads \<open>ixs1\<close> for five of its regions and \<open>ixs2\<close> for the region \<open>SOL\<close>; the condition
  for it asks the two to be equal.
\<close>

definition breakpoints_ordered :: "string \<Rightarrow> locals \<Rightarrow> bool" where
  "breakpoints_ordered topology l =
     (if topology = ''disconnected-double-null'' \<or> topology = ''connected-double-null'' then
        0 \<le> ixs1 l \<and> ixs1 l \<le> ixs2 l \<and> ixs2 l \<le> nx' l
        \<and> 0 \<le> jys11 l + 1 \<and> jys11 l \<le> jys21 l \<and> jys21 l + 1 \<le> nyinner l
        \<and> nyinner l \<le> jys12 l + 1 \<and> jys12 l \<le> jys22 l \<and> jys22 l + 1 \<le> ny' l
      else if topology = ''single-null'' then
        0 \<le> ixs1 l \<and> ixs1 l = ixs2 l \<and> ixs2 l \<le> nx' l
        \<and> 0 \<le> jys11 l + 1 \<and> jys11 l \<le> jys22 l \<and> jys22 l + 1 \<le> ny' l
      else if topology = ''xpoint'' then
        0 \<le> ixs1 l \<and> ixs1 l \<le> nx' l
        \<and> 0 \<le> jys11 l + 1 \<and> jys11 l + 1 \<le> nyinner l
        \<and> nyinner l \<le> jys22 l + 1 \<and> jys22 l + 1 \<le> ny' l
      else if topology = ''limiter'' then
        0 \<le> ixs1 l \<and> ixs1 l \<le> nx' l
      else True)"

text \<open>
  The y-connections that close a flux surface around an X-point or around the core: the
  lower region's band and the upper region's band are not neighbours in the index space.
\<close>

definition wrap_around :: "string \<Rightarrow> string \<Rightarrow> bool" where
  "wrap_around lower upper =
     ((lower, upper) \<in> set
        [(''core'', ''core''),
         (''inner_PFR'', ''outer_PFR''),
         (''inner_core'', ''outer_core''),
         (''outer_core'', ''inner_core''),
         (''lower_inner_PFR'', ''lower_outer_PFR''),
         (''upper_outer_PFR'', ''upper_inner_PFR''),
         (''inner_intersep'', ''outer_intersep''),
         (''upper_outer_intersep'', ''upper_inner_intersep'')])"

subsection \<open>The preprocessing pipeline as the specification words it\<close>

text \<open>
  Clamping a value into \<open>[lower, upper]\<close>, and ordering a pair, written independently of
  \<open>in_range\<close> and \<open>order_vars\<close>.
\<close>

definition spec_clamp :: "int \<Rightarrow> int \<Rightarrow> int \<Rightarrow> int" where
  "spec_clamp lower upper val = max lower (min upper val)"

definition spec_ordered :: "int \<Rightarrow> int \<Rightarrow> int \<times> int" where
  "spec_ordered a b = (min a b, max a b)"

text \<open>
  The reference pipeline, step by step: (1) clamp \<open>ixseps1\<close>, \<open>ixseps2\<close> into \<open>[0, nx]\<close> and
  order them; (2) clamp \<open>jyseps1_1\<close>, \<open>jyseps2_1\<close>, \<open>jyseps1_2\<close> into \<open>[0, ny - 1]\<close> and order
  \<open>jyseps2_1 \<le> jyseps1_2\<close>; (3) clamp \<open>ny_inner\<close> into \<open>[jyseps2_1 + 1, jyseps1_2 + 1]\<close>;
  (4) clamp \<open>jyseps2_2\<close> into \<open>[0, ny - 1]\<close>; (5) if \<open>keep_xboundaries\<close> is false subtract
  \<open>MXG\<close> from both \<open>ixseps\<close> and \<open>2 * MXG\<close> from \<open>nx\<close>; with \<open>ybndry\<close> equal to \<open>MYG\<close> if
  \<open>keep_yboundaries\<close> is true and to \<open>0\<close> otherwise, add \<open>ybndry\<close>, \<open>ybndry\<close>, \<open>2 * ybndry\<close>,
  \<open>3 * ybndry\<close>, \<open>3 * ybndry\<close>, \<open>4 * ybndry\<close> to \<open>jyseps1_1\<close>, \<open>jyseps2_1\<close>, \<open>ny_inner\<close>,
  \<open>jyseps1_2\<close>, \<open>jyseps2_2\<close>, \<open>ny\<close>.
\<close>

definition spec_pipeline :: "metadata \<Rightarrow> locals" where
  "spec_pipeline md =
     (let (s1, s2) = spec_ordered (spec_clamp 0 (nx md) (ixseps1 md))
                                  (spec_clamp 0 (nx md) (ixseps2 md));
          j11 = spec_clamp 0 (ny md - 1) (jyseps1_1 md);
          (j21, j12) = spec_ordered (spec_clamp 0 (ny md - 1) (jyseps2_1 md))
                                    (spec_clamp 0 (ny md - 1) (jyseps1_2 md));
          nyi = spec_clamp (j21 + 1) (j12 + 1) (ny_inner md);
          j22 = spec_clamp 0 (ny md - 1) (jyseps2_2 md);
          xshift = (if keep_xboundaries md = 0 then MXG md else 0);
          ybndry = (if keep_yboundaries md \<noteq> 0 then MYG md else 0)
      in \<lparr>ixs1 = s1 - xshift, ixs2 = s2 - xshift, nx' = nx md - 2 * xshift,
          jys11 = j11 + ybndry, jys21 = j21 + ybndry, nyinner = nyi + 2 * ybndry,
          jys12 = j12 + 3 * ybndry, jys22 = j22 + 3 * ybndry, ny' = ny md + 4 * ybndry\<rparr>)"

subsection \<open>Example grids\<close>

text \<open>
  A limiter grid of 7 by 8 points with the separatrix at \<open>x = 3\<close>, stored with its
  boundary cells in x.
\<close>

definition limiter_grid :: metadata where
  "limiter_grid =
     \<lparr>nx = 7, ny = 8, ny_inner = 4, ixseps1 = 3, ixseps2 = 3,
      jyseps1_1 = -1, jyseps2_1 = 3, jyseps1_2 = 3, jyseps2_2 = 7,
      MXG = 2, MYG = 0, keep_xboundaries = 1, keep_yboundaries = 0\<rparr>"

text \<open>The core-only grid of 4 by 8 points.\<close>

definition core_grid :: metadata where
  "core_grid =
     \<lparr>nx = 4, ny = 8, ny_inner = 4, ixseps1 = 10, ixseps2 = 10,
      jyseps1_1 = -1, jyseps2_1 = 3, jyseps1_2 = 3, jyseps2_2 = 7,
      MXG = 0, MYG = 0, keep_xboundaries = 1, keep_yboundaries = 0\<rparr>"

text \<open>
  A single-null grid of 8 by 16 points, both separatrix indices at \<open>x = 4\<close>, legs of four
  points each.
\<close>

definition single_null_grid :: metadata where
  "single_null_grid =
     \<lparr>nx = 8, ny = 16, ny_inner = 8, ixseps1 = 4, ixseps2 = 4,
      jyseps1_1 = 3, jyseps2_1 = 7, jyseps1_2 = 7, jyseps2_2 = 11,
      MXG = 2, MYG = 2, keep_xboundaries = 1, keep_yboundaries = 0\<rparr>"

text \<open>
  A disconnected double-null grid of 12 by 24 points, separatrices at \<open>x = 5\<close> and
  \<open>x = 9\<close>, six y-bands of four points each.
\<close>

definition double_null_grid :: metadata where
  "double_null_grid =
     \<lparr>nx = 12, ny = 24, ny_inner = 12, ixseps1 = 5, ixseps2 = 9,
      jyseps1_1 = 3, jyseps2_1 = 7, jyseps1_2 = 15, jyseps2_2 = 19,
      MXG = 2, MYG = 2, keep_xboundaries = 1, keep_yboundaries = 0\<rparr>"

text \<open>
  The same grid with \<open>jyseps1_1\<close> above \<open>jyseps2_1\<close>: the breakpoints of the inner
  lower leg and of the inner core are out of order.
\<close>

definition unordered_grid :: metadata where
  "unordered_grid = double_null_grid\<lparr>jyseps1_1 := 9\<rparr>"

text \<open>
  A double-null grid whose lower X-point breakpoint lies above its upper one on the
  outer side.
\<close>

definition crossed_grid :: metadata where
  "crossed_grid = double_null_grid\<lparr>jyseps2_2 := 13\<rparr>"

text \<open>An isolated X-point grid of 8 by 16 points, four y-bands of four points each.\<close>

definition xpoint_grid :: metadata where
  "xpoint_grid =
     \<lparr>nx = 8, ny = 16, ny_inner = 8, ixseps1 = 4, ixseps2 = 4,
      jyseps1_1 = 3, jyseps2_1 = 3, jyseps1_2 = 11, jyseps2_2 = 11,
      MXG = 2, MYG = 2, keep_xboundaries = 1, keep_yboundaries = 0\<rparr>"

text \<open>The region stored under the key \<open>core\<close> for the limiter grid.\<close>

definition limiter_core :: Region where
  "limiter_core =
     \<lparr>name = ''core'', xinner_ind = 0, xouter_ind = 3, ylower_ind = 0, yupper_ind = 8,
      connection_inner = None, connection_outer = Some ''SOL'',
      connection_lower = Some ''core'', connection_upper = Some ''core''\<rparr>"

text \<open>An open-field-line grid: the limiter grid with both separatrix indices at \<open>0\<close>.\<close>

definition sol_grid :: metadata where
  "sol_grid = limiter_grid\<lparr>ixseps1 := 0, ixseps2 := 0\<rparr>"

text \<open>
  Three regions of the disconnected double-null grid, as the function builds them, and
  the region stored under the key \<open>outer_PFR\<close> for the single-null grid.
\<close>

definition double_null_lower_inner_intersep :: Region where
  "double_null_lower_inner_intersep =
     \<lparr>name = ''lower_inner_intersep'', xinner_ind = 5, xouter_ind = 9,
      ylower_ind = 0, yupper_ind = 4,
      connection_inner = Some ''lower_inner_PFR'', connection_outer = Some ''lower_inner_SOL'',
      connection_lower = None, connection_upper = Some ''inner_intersep''\<rparr>"

definition double_null_lower_inner_SOL :: Region where
  "double_null_lower_inner_SOL =
     \<lparr>name = ''lower_inner_SOL'', xinner_ind = 9, xouter_ind = 12,
      ylower_ind = 0, yupper_ind = 4,
      connection_inner = Some ''lower_inner_intersep'', connection_outer = None,
      connection_lower = None, connection_upper = Some ''inner_SOL''\<rparr>"

definition double_null_inner_SOL :: Region where
  "double_null_inner_SOL =
     \<lparr>name = ''inner_SOL'', xinner_ind = 9, xouter_ind = 12,
      ylower_ind = 4, yupper_ind = 8,
      connection_inner = Some ''inner_intersep'', connection_outer = None,
      connection_lower = Some ''lower_inner_SOL'', connection_upper = Some ''upper_inner_SOL''\<rparr>"

definition single_null_outer_PFR :: Region where
  "single_null_outer_PFR =
     \<lparr>name = ''lower_PFR'', xinner_ind = 0, xouter_ind = 4,
      ylower_ind = 12, yupper_ind = 16,
      connection_inner = None, connection_outer = Some ''outer_SOL'',
      connection_lower = Some ''inner_PFR'', connection_upper = None\<rparr>"

section \<open>Properties\<close>

subsection \<open>What each branch builds\<close>

text \<open>
  Executing the assignments and the connection calls of a branch never raises, and
  ends with the dictionary written out below: the regions in the order of their
  assignment, each with the connections the calls have set.
\<close>

lemma built_disconnected_double_null:
  "create_connections wiring_disconnected_double_null (assign_all (table_disconnected_double_null l) []) = Inr
     [(''lower_inner_PFR'', \<lparr>name = ''lower_inner_PFR'', xinner_ind = 0, xouter_ind = ixs1 l, ylower_ind = 0, yupper_ind = jys11 l + 1,
        connection_inner = None, connection_outer = Some ''lower_inner_intersep'',
        connection_lower = None, connection_upper = Some ''lower_outer_PFR''\<rparr>),
      (''lower_inner_intersep'', \<lparr>name = ''lower_inner_intersep'', xinner_ind = ixs1 l, xouter_ind = ixs2 l, ylower_ind = 0, yupper_ind = jys11 l + 1,
        connection_inner = Some ''lower_inner_PFR'', connection_outer = Some ''lower_inner_SOL'',
        connection_lower = None, connection_upper = Some ''inner_intersep''\<rparr>),
      (''lower_inner_SOL'', \<lparr>name = ''lower_inner_SOL'', xinner_ind = ixs2 l, xouter_ind = nx' l, ylower_ind = 0, yupper_ind = jys11 l + 1,
        connection_inner = Some ''lower_inner_intersep'', connection_outer = None,
        connection_lower = None, connection_upper = Some ''inner_SOL''\<rparr>),
      (''inner_core'', \<lparr>name = ''inner_core'', xinner_ind = 0, xouter_ind = ixs1 l, ylower_ind = jys11 l + 1, yupper_ind = jys21 l + 1,
        connection_inner = None, connection_outer = Some ''inner_intersep'',
        connection_lower = Some ''outer_core'', connection_upper = Some ''outer_core''\<rparr>),
      (''inner_intersep'', \<lparr>name = ''inner_intersep'', xinner_ind = ixs1 l, xouter_ind = ixs2 l, ylower_ind = jys11 l + 1, yupper_ind = jys21 l + 1,
        connection_inner = Some ''inner_core'', connection_outer = Some ''inner_SOL'',
        connection_lower = Some ''lower_inner_intersep'', connection_upper = Some ''outer_intersep''\<rparr>),
      (''inner_SOL'', \<lparr>name = ''inner_SOL'', xinner_ind = ixs2 l, xouter_ind = nx' l, ylower_ind = jys11 l + 1, yupper_ind = jys21 l + 1,
        connection_inner = Some ''inner_intersep'', connection_outer = None,
        connection_lower = Some ''lower_inner_SOL'', connection_upper = Some ''upper_inner_SOL''\<rparr>),
      (''upper_inner_PFR'', \<lparr>name = ''upper_inner_PFR'', xinner_ind = 0, xouter_ind = ixs1 l, ylower_ind = jys21 l + 1, yupper_ind = nyinner l,
        connection_inner = None, connection_outer = Some ''upper_inner_intersep'',
        connection_lower = Some ''upper_outer_PFR'', connection_upper = None\<rparr>),
      (''upper_inner_intersep'', \<lparr>name = ''upper_inner_intersep'', xinner_ind = ixs1 l, xouter_ind = ixs2 l, ylower_ind = jys21 l + 1, yupper_ind = nyinner l,
        connection_inner = Some ''upper_inner_PFR'', connection_outer = Some ''upper_inner_SOL'',
        connection_lower = Some ''upper_outer_intersep'', connection_upper = None\<rparr>),
      (''upper_inner_SOL'', \<lparr>name = ''upper_inner_SOL'', xinner_ind = ixs2 l, xouter_ind = nx' l, ylower_ind = jys21 l + 1, yupper_ind = nyinner l,
        connection_inner = Some ''upper_inner_intersep'', connection_outer = None,
        connection_lower = Some ''inner_SOL'', connection_upper = None\<rparr>),
      (''upper_outer_PFR'', \<lparr>name = ''upper_outer_PFR'', xinner_ind = 0, xouter_ind = ixs1 l, ylower_ind = nyinner l, yupper_ind = jys12 l + 1,
        connection_inner = None, connection_outer = Some ''upper_outer_intersep'',
        connection_lower = None, connection_upper = Some ''upper_inner_PFR''\<rparr>),
      (''upper_outer_intersep'', \<lparr>name = ''upper_outer_intersep'', xinner_ind = ixs1 l, xouter_ind = ixs2 l, ylower_ind = nyinner l, yupper_ind = jys12 l + 1,
        connection_inner = Some ''upper_outer_PFR'', connection_outer = Some ''upper_outer_SOL'',
        connection_lower = None, connection_upper = Some ''upper_inner_intersep''\<rparr>),
      (''upper_outer_SOL'', \<lparr>name = ''upper_outer_SOL'', xinner_ind = ixs2 l, xouter_ind = nx' l, ylower_ind = nyinner l, yupper_ind = jys12 l + 1,
        connection_inner = Some ''upper_outer_intersep'', connection_outer = None,
        connection_lower = None, connection_upper = Some ''outer_SOL''\<rparr>),
      (''outer_core'', \<lparr>name = ''outer_core'', xinner_ind = 0, xouter_ind = ixs1 l, ylower_ind = jys12 l + 1, yupper_ind = jys22 l + 1,
        connection_inner = None, connection_outer = Some ''outer_intersep'',
        connection_lower = Some ''inner_core'', connection_upper = Some ''inner_core''\<rparr>),
      (''outer_intersep'', \<lparr>name = ''outer_intersep'', xinner_ind = ixs1 l, xouter_ind = ixs2 l, ylower_ind = jys12 l + 1, yupper_ind = jys22 l + 1,
        connection_inner = Some ''outer_core'', connection_outer = Some ''outer_SOL'',
        connection_lower = Some ''inner_intersep'', connection_upper = Some ''lower_outer_intersep''\<rparr>),
      (''outer_SOL'', \<lparr>name = ''outer_SOL'', xinner_ind = ixs2 l, xouter_ind = nx' l, ylower_ind = jys12 l + 1, yupper_ind = jys22 l + 1,
        connection_inner = Some ''outer_intersep'', connection_outer = None,
        connection_lower = Some ''upper_outer_SOL'', connection_upper = Some ''lower_outer_SOL''\<rparr>),
      (''lower_outer_PFR'', \<lparr>name = ''lower_outer_PFR'', xinner_ind = 0, xouter_ind = ixs1 l, ylower_ind = jys22 l + 1, yupper_ind = ny' l,
        connection_inner = None, connection_outer = Some ''lower_outer_intersep'',
        connection_lower = Some ''lower_inner_PFR'', connection_upper = None\<rparr>),
      (''lower_outer_intersep'', \<lparr>name = ''lower_outer_intersep'', xinner_ind = ixs1 l, xouter_ind = ixs2 l, ylower_ind = jys22 l + 1, yupper_ind = ny' l,
        connection_inner = Some ''lower_outer_PFR'', connection_outer = Some ''lower_outer_SOL'',
        connection_lower = Some ''outer_intersep'', connection_upper = None\<rparr>),
      (''lower_outer_SOL'', \<lparr>name = ''lower_outer_SOL'', xinner_ind = ixs2 l, xouter_ind = nx' l, ylower_ind = jys22 l + 1, yupper_ind = ny' l,
        connection_inner = Some ''lower_outer_intersep'', connection_outer = None,
        connection_lower = Some ''outer_SOL'', connection_upper = None\<rparr>)]"
  by (simp add: wiring_disconnected_double_null_def table_disconnected_double_null_def Region_init_def setitem_def
        create_connection_x_def create_connection_y_def)

lemma built_connected_double_null:
  "create_connections wiring_connected_double_null (assign_all (table_connected_double_null l) []) = Inr
     [(''lower_inner_PFR'', \<lparr>name = ''lower_inner_PFR'', xinner_ind = 0, xouter_ind = ixs1 l, ylower_ind = 0, yupper_ind = jys11 l + 1,
        connection_inner = None, connection_outer = Some ''lower_inner_SOL'',
        connection_lower = None, connection_upper = Some ''lower_outer_PFR''\<rparr>),
      (''lower_inner_SOL'', \<lparr>name = ''lower_inner_SOL'', xinner_ind = ixs2 l, xouter_ind = nx' l, ylower_ind = 0, yupper_ind = jys11 l + 1,
        connection_inner = Some ''lower_inner_PFR'', connection_outer = None,
        connection_lower = None, connection_upper = Some ''inner_SOL''\<rparr>),
      (''inner_core'', \<lparr>name = ''inner_core'', xinner_ind = 0, xouter_ind = ixs1 l, ylower_ind = jys11 l + 1, yupper_ind = jys21 l + 1,
        connection_inner = None, connection_outer = Some ''inner_SOL'',
        connection_lower = Some ''outer_core'', connection_upper = Some ''outer_core''\<rparr>),
      (''inner_SOL'', \<lparr>name = ''inner_SOL'', xinner_ind = ixs2 l, xouter_ind = nx' l, ylower_ind = jys11 l + 1, yupper_ind = jys21 l + 1,
        connection_inner = Some ''inner_core'', connection_outer = None,
        connection_lower = Some ''lower_inner_SOL'', connection_upper = Some ''upper_inner_SOL''\<rparr>),
      (''upper_inner_PFR'', \<lparr>name = ''upper_inner_PFR'', xinner_ind = 0, xouter_ind = ixs1 l, ylower_ind = jys21 l + 1, yupper_ind = nyinner l,
        connection_inner = None, connection_outer = Some ''upper_inner_SOL'',
        connection_lower = Some ''upper_outer_PFR'', connection_upper = None\<rparr>),
      (''upper_inner_SOL'', \<lparr>name = ''upper_inner_SOL'', xinner_ind = ixs2 l, xouter_ind = nx' l, ylower_ind = jys21 l + 1, yupper_ind = nyinner l,
        connection_inner = Some ''upper_inner_PFR'', connection_outer = None,
        connection_lower = Some ''inner_SOL'', connection_upper = None\<rparr>),
      (''upper_outer_PFR'', \<lparr>name = ''upper_outer_PFR'', xinner_ind = 0, xouter_ind = ixs1 l, ylower_ind = nyinner l, yupper_ind = jys12 l + 1,
        connection_inner = None, connection_outer = Some ''upper_outer_SOL'',
        connection_lower = None, connection_upper = Some ''upper_inner_PFR''\<rparr>),
      (''upper_outer_SOL'', \<lparr>name = ''upper_outer_SOL'', xinner_ind = ixs2 l, xouter_ind = nx' l, ylower_ind = nyinner l, yupper_ind = jys12 l + 1,
        connection_inner = Some ''upper_outer_PFR'', connection_outer = None,
        connection_lower = None, connection_upper = Some ''outer_SOL''\<rparr>),
      (''outer_core'', \<lparr>name = ''outer_core'', xinner_ind = 0, xouter_ind = ixs1 l, ylower_ind = jys12 l + 1, yupper_ind = jys22 l + 1,
        connection_inner = None, connection_outer = Some ''outer_SOL'',
        connection_lower = Some ''inner_core'', connection_upper = Some ''inner_core''\<rparr>),
      (''outer_SOL'', \<lparr>name = ''outer_SOL'', xinner_ind = ixs2 l, xouter_ind = nx' l, ylower_ind = jys12 l + 1, yupper_ind = jys22 l + 1,
        connection_inner = Some ''outer_core'', connection_outer = None,
        connection_lower = Some ''upper_outer_SOL'', connection_upper = Some ''lower_outer_SOL''\<rparr>),
      (''lower_outer_PFR'', \<lparr>name = ''lower_outer_PFR'', xinner_ind = 0, xouter_ind = ixs1 l, ylower_ind = jys22 l + 1, yupper_ind = ny' l,
        connection_inner = None, connection_outer = Some ''lower_outer_SOL'',
        connection_lower = Some ''lower_inner_PFR'', connection_upper = None\<rparr>),
      (''lower_outer_SOL'', \<lparr>name = ''lower_outer_SOL'', xinner_ind = ixs2 l, xouter_ind = nx' l, ylower_ind = jys22 l + 1, yupper_ind = ny' l,
        connection_inner = Some ''lower_outer_PFR'', connection_outer = None,
        connection_lower = Some ''outer_SOL'', connection_upper = None\<rparr>)]"
  by (simp add: wiring_connected_double_null_def table_connected_double_null_def Region_init_def setitem_def
        create_connection_x_def create_connection_y_def)

lemma built_single_null:
  "create_connections wiring_single_null (assign_all (table_single_null l) []) = Inr
     [(''inner_PFR'', \<lparr>name = ''inner_PFR'', xinner_ind = 0, xouter_ind = ixs1 l, ylower_ind = 0, yupper_ind = jys11 l + 1,
        connection_inner = None, connection_outer = Some ''inner_SOL'',
        connection_lower = None, connection_upper = Some ''outer_PFR''\<rparr>),
      (''inner_SOL'', \<lparr>name = ''inner_SOL'', xinner_ind = ixs1 l, xouter_ind = nx' l, ylower_ind = 0, yupper_ind = jys11 l + 1,
        connection_inner = Some ''inner_PFR'', connection_outer = None,
        connection_lower = None, connection_upper = Some ''SOL''\<rparr>),
      (''core'', \<lparr>name = ''core'', xinner_ind = 0, xouter_ind = ixs1 l, ylower_ind = jys11 l + 1, yupper_ind = jys22 l + 1,
        connection_inner = None, connection_outer = Some ''SOL'',
        connection_lower = Some ''core'', connection_upper = Some ''core''\<rparr>),
      (''SOL'', \<lparr>name = ''SOL'', xinner_ind = ixs2 l, xouter_ind = nx' l, ylower_ind = jys11 l + 1, yupper_ind = jys22 l + 1,
        connection_inner = Some ''core'', connection_outer = None,
        connection_lower = Some ''inner_SOL'', connection_upper = Some ''outer_SOL''\<rparr>),
      (''outer_PFR'', \<lparr>name = ''lower_PFR'', xinner_ind = 0, xouter_ind = ixs1 l, ylower_ind = jys22 l + 1, yupper_ind = ny' l,
        connection_inner = None, connection_outer = Some ''outer_SOL'',
        connection_lower = Some ''inner_PFR'', connection_upper = None\<rparr>),
      (''outer_SOL'', \<lparr>name = ''lower_SOL'', xinner_ind = ixs1 l, xouter_ind = nx' l, ylower_ind = jys22 l + 1, yupper_ind = ny' l,
        connection_inner = Some ''outer_PFR'', connection_outer = None,
        connection_lower = Some ''SOL'', connection_upper = None\<rparr>)]"
  by (simp add: wiring_single_null_def table_single_null_def Region_init_def setitem_def
        create_connection_x_def create_connection_y_def)

lemma built_limiter:
  "create_connections wiring_limiter (assign_all (table_limiter l) []) = Inr
     [(''core'', \<lparr>name = ''core'', xinner_ind = 0, xouter_ind = ixs1 l, ylower_ind = 0, yupper_ind = ny' l,
        connection_inner = None, connection_outer = Some ''SOL'',
        connection_lower = Some ''core'', connection_upper = Some ''core''\<rparr>),
      (''SOL'', \<lparr>name = ''SOL'', xinner_ind = ixs1 l, xouter_ind = nx' l, ylower_ind = 0, yupper_ind = ny' l,
        connection_inner = Some ''core'', connection_outer = None,
        connection_lower = None, connection_upper = None\<rparr>)]"
  by (simp add: wiring_limiter_def table_limiter_def Region_init_def setitem_def
        create_connection_x_def create_connection_y_def)

lemma built_core:
  "create_connections wiring_core (assign_all (table_core l) []) = Inr
     [(''core'', \<lparr>name = ''core'', xinner_ind = 0, xouter_ind = nx' l, ylower_ind = 0, yupper_ind = ny' l,
        connection_inner = None, connection_outer = None,
        connection_lower = Some ''core'', connection_upper = Some ''core''\<rparr>)]"
  by (simp add: wiring_core_def table_core_def Region_init_def setitem_def
        create_connection_x_def create_connection_y_def)

lemma built_sol:
  "create_connections wiring_sol (assign_all (table_sol l) []) = Inr
     [(''sol'', \<lparr>name = ''sol'', xinner_ind = 0, xouter_ind = nx' l, ylower_ind = 0, yupper_ind = ny' l,
        connection_inner = None, connection_outer = None,
        connection_lower = None, connection_upper = None\<rparr>)]"
  by (simp add: wiring_sol_def table_sol_def Region_init_def setitem_def
        create_connection_x_def create_connection_y_def)

lemma built_xpoint:
  "create_connections wiring_xpoint (assign_all (table_xpoint l) []) = Inr
     [(''lower_inner_PFR'', \<lparr>name = ''lower_inner_PFR'', xinner_ind = 0, xouter_ind = ixs1 l, ylower_ind = 0, yupper_ind = jys11 l + 1,
        connection_inner = None, connection_outer = Some ''lower_inner_SOL'',
        connection_lower = None, connection_upper = Some ''lower_outer_PFR''\<rparr>),
      (''lower_inner_SOL'', \<lparr>name = ''lower_inner_SOL'', xinner_ind = ixs1 l, xouter_ind = nx' l, ylower_ind = 0, yupper_ind = jys11 l + 1,
        connection_inner = Some ''lower_inner_PFR'', connection_outer = None,
        connection_lower = None, connection_upper = Some ''upper_inner_SOL''\<rparr>),
      (''upper_inner_PFR'', \<lparr>name = ''upper_inner_PFR'', xinner_ind = 0, xouter_ind = ixs1 l, ylower_ind = jys11 l + 1, yupper_ind = nyinner l,
        connection_inner = None, connection_outer = Some ''upper_inner_SOL'',
        connection_lower = Some ''upper_outer_PFR'', connection_upper = None\<rparr>),
      (''upper_inner_SOL'', \<lparr>name = ''upper_inner_SOL'', xinner_ind = ixs1 l, xouter_ind = nx' l, ylower_ind = jys11 l + 1, yupper_ind = nyinner l,
        connection_inner = Some ''upper_inner_PFR'', connection_outer = None,
        connection_lower = Some ''lower_inner_SOL'', connection_upper = None\<rparr>),
      (''upper_outer_PFR'', \<lparr>name = ''upper_outer_PFR'', xinner_ind = 0, xouter_ind = ixs1 l, ylower_ind = nyinner l, yupper_ind = jys22 l + 1,
        connection_inner = None, connection_outer = Some ''upper_outer_SOL'',
        connection_lower = None, connection_upper = Some ''upper_inner_PFR''\<rparr>),
      (''upper_outer_SOL'', \<lparr>name = ''upper_outer_SOL'', xinner_ind = ixs1 l, xouter_ind = nx' l, ylower_ind = nyinner l, yupper_ind = jys22 l + 1,
        connection_inner = Some ''upper_outer_PFR'', connection_outer = None,
        connection_lower = None, connection_upper = Some ''lower_outer_SOL''\<rparr>),
      (''lower_outer_PFR'', \<lparr>name = ''lower_outer_PFR'', xinner_ind = 0, xouter_ind = ixs1 l, ylower_ind = jys22 l + 1, yupper_ind = ny' l,
        connection_inner = None, connection_outer = Some ''lower_outer_SOL'',
        connection_lower = Some ''lower_inner_PFR'', connection_upper = None\<rparr>),
      (''lower_outer_SOL'', \<lparr>name = ''lower_outer_SOL'', xinner_ind = ixs1 l, xouter_ind = nx' l, ylower_ind = jys22 l + 1, yupper_ind = ny' l,
        connection_inner = Some ''lower_outer_PFR'', connection_outer = None,
        connection_lower = Some ''upper_outer_SOL'', connection_upper = None\<rparr>)]"
  by (simp add: wiring_xpoint_def table_xpoint_def Region_init_def setitem_def
        create_connection_x_def create_connection_y_def)

lemma get_topology_cases:
  "get_topology md = ''disconnected-double-null'' \<or> get_topology md = ''connected-double-null''
   \<or> get_topology md = ''single-null'' \<or> get_topology md = ''limiter''
   \<or> get_topology md = ''core'' \<or> get_topology md = ''sol'' \<or> get_topology md = ''xpoint''"
  by (simp add: get_topology_def Let_def)

lemma create_disconnected_double_null:
  "get_topology md = ''disconnected-double-null'' \<Longrightarrow>
   create_regions_toroidal md =
     create_connections wiring_disconnected_double_null (assign_all (table_disconnected_double_null (adjusted_indices md)) [])"
  by (simp add: create_regions_toroidal_def Let_def)

lemma create_connected_double_null:
  "get_topology md = ''connected-double-null'' \<Longrightarrow>
   create_regions_toroidal md =
     create_connections wiring_connected_double_null (assign_all (table_connected_double_null (adjusted_indices md)) [])"
  by (simp add: create_regions_toroidal_def Let_def)

lemma create_single_null:
  "get_topology md = ''single-null'' \<Longrightarrow>
   create_regions_toroidal md =
     create_connections wiring_single_null (assign_all (table_single_null (adjusted_indices md)) [])"
  by (simp add: create_regions_toroidal_def Let_def)

lemma create_limiter:
  "get_topology md = ''limiter'' \<Longrightarrow>
   create_regions_toroidal md =
     create_connections wiring_limiter (assign_all (table_limiter (adjusted_indices md)) [])"
  by (simp add: create_regions_toroidal_def Let_def)

lemma create_core:
  "get_topology md = ''core'' \<Longrightarrow>
   create_regions_toroidal md =
     create_connections wiring_core (assign_all (table_core (adjusted_indices md)) [])"
  by (simp add: create_regions_toroidal_def Let_def)

lemma create_sol:
  "get_topology md = ''sol'' \<Longrightarrow>
   create_regions_toroidal md =
     create_connections wiring_sol (assign_all (table_sol (adjusted_indices md)) [])"
  by (simp add: create_regions_toroidal_def Let_def)

lemma create_xpoint:
  "get_topology md = ''xpoint'' \<Longrightarrow>
   create_regions_toroidal md =
     create_connections wiring_xpoint (assign_all (table_xpoint (adjusted_indices md)) [])"
  by (simp add: create_regions_toroidal_def Let_def)

text \<open>
  Case analysis on a successful run of \<open>_create_regions_toroidal\<close>: the topology is one
  of the seven tags and the result is what the branch of that tag builds.
\<close>

lemma create_regions_cases [consumes 1, case_names ddn cdn single_null limiter core sol xpoint]:
  assumes "create_regions_toroidal md = Inr rs"
  obtains
    "get_topology md = ''disconnected-double-null''"
    "create_connections wiring_disconnected_double_null
       (assign_all (table_disconnected_double_null (adjusted_indices md)) []) = Inr rs"
  | "get_topology md = ''connected-double-null''"
    "create_connections wiring_connected_double_null
       (assign_all (table_connected_double_null (adjusted_indices md)) []) = Inr rs"
  | "get_topology md = ''single-null''"
    "create_connections wiring_single_null
       (assign_all (table_single_null (adjusted_indices md)) []) = Inr rs"
  | "get_topology md = ''limiter''"
    "create_connections wiring_limiter
       (assign_all (table_limiter (adjusted_indices md)) []) = Inr rs"
  | "get_topology md = ''core''"
    "create_connections wiring_core
       (assign_all (table_core (adjusted_indices md)) []) = Inr rs"
  | "get_topology md = ''sol''"
    "create_connections wiring_sol
       (assign_all (table_sol (adjusted_indices md)) []) = Inr rs"
  | "get_topology md = ''xpoint''"
    "create_connections wiring_xpoint
       (assign_all (table_xpoint (adjusted_indices md)) []) = Inr rs"
  using get_topology_cases [of md] assms
  by (elim disjE)
     (simp_all only: create_disconnected_double_null create_connected_double_null
        create_single_null create_limiter create_core create_sol create_xpoint)

subsection \<open>Slices\<close>

text \<open>
  C1. \<open>getSlices\<close> on the failing input: the core region of the limiter grid has a
  connection on its outer side only (in x), and for \<open>mxg = 2\<close> the x-slice returned is
  \<open>[2, 3)\<close>, where the region's own range extended on the connected side is \<open>[0, 5)\<close>.
\<close>

theorem getSlices_limiter_core:
  "map_of (projr (create_regions_toroidal limiter_grid)) ''core'' = Some limiter_core
   \<and> getSlices limiter_core 2 0 = (Slice 2 3, Slice 0 8)
   \<and> (Slice 2 3, Slice 0 8)
        \<noteq> (Slice (xinner_ind limiter_core) (xouter_ind limiter_core + 2),
            Slice (ylower_ind limiter_core) (yupper_ind limiter_core))"
proof -
  have t: "get_topology limiter_grid = ''limiter''"
    by (simp add: get_topology_def limiter_grid_def)
  have l: "adjusted_indices limiter_grid =
      \<lparr>ixs1 = 3, ixs2 = 3, nx' = 7, jys11 = 0, jys21 = 3, nyinner = 4,
       jys12 = 3, jys22 = 7, ny' = 8\<rparr>"
    by (simp add: adjusted_indices_def limiter_grid_def in_range_def order_vars_def)
  show ?thesis
    by (simp add: create_limiter [OF t] built_limiter l limiter_core_def getSlices_def)
qed

text \<open>
  C9. Each of the four guard-band operations returns the band of the requested width
  just outside the region's own bound on the named side, over the region's whole range
  in the other dimension: the inner band is \<open>[xinner_ind - mxg, xinner_ind)\<close>, the outer
  band \<open>[xouter_ind, xouter_ind + mxg)\<close>, the lower band \<open>[ylower_ind - myg, ylower_ind)\<close>
  and the upper band \<open>[yupper_ind, yupper_ind + myg)\<close>. The result does not depend on the
  region's connections: setting the four of them to any values changes none of the bands.
\<close>

theorem guard_slices_bands:
  "getInnerGuardsSlices r mxg =
     (Slice (xinner_ind r - mxg) (xinner_ind r), Slice (ylower_ind r) (yupper_ind r))
   \<and> getOuterGuardsSlices r mxg =
     (Slice (xouter_ind r) (xouter_ind r + mxg), Slice (ylower_ind r) (yupper_ind r))
   \<and> getLowerGuardsSlices r myg =
     (Slice (xinner_ind r) (xouter_ind r), Slice (ylower_ind r - myg) (ylower_ind r))
   \<and> getUpperGuardsSlices r myg =
     (Slice (xinner_ind r) (xouter_ind r), Slice (yupper_ind r) (yupper_ind r + myg))
   \<and> getInnerGuardsSlices
       (r\<lparr>connection_inner := a, connection_outer := b,
          connection_lower := c, connection_upper := d\<rparr>) mxg = getInnerGuardsSlices r mxg
   \<and> getOuterGuardsSlices
       (r\<lparr>connection_inner := a, connection_outer := b,
          connection_lower := c, connection_upper := d\<rparr>) mxg = getOuterGuardsSlices r mxg
   \<and> getLowerGuardsSlices
       (r\<lparr>connection_inner := a, connection_outer := b,
          connection_lower := c, connection_upper := d\<rparr>) myg = getLowerGuardsSlices r myg
   \<and> getUpperGuardsSlices
       (r\<lparr>connection_inner := a, connection_outer := b,
          connection_lower := c, connection_upper := d\<rparr>) myg = getUpperGuardsSlices r myg"
  by (simp add: getInnerGuardsSlices_def getOuterGuardsSlices_def
        getLowerGuardsSlices_def getUpperGuardsSlices_def)

subsection \<open>The classifier\<close>

text \<open>
  C5. \<open>_get_topology\<close> is a function of the metadata alone. When \<open>jyseps2_1 = jyseps1_2\<close>,
  \<open>jyseps1_1 \<le> 0\<close>, \<open>jyseps2_2 \<ge> ny - 1\<close> and \<open>nx \<ge> 2\<close>, with \<open>ix = min ixseps1 ixseps2\<close>
  it returns \<open>core\<close> if \<open>ix \<ge> nx - 1\<close>, else \<open>sol\<close> if \<open>ix \<le> 0\<close>, else \<open>limiter\<close>.
\<close>

theorem get_topology_no_legs:
  assumes "jyseps2_1 md = jyseps1_2 md" and "jyseps1_1 md \<le> 0"
    and "jyseps2_2 md \<ge> ny md - 1" and "nx md \<ge> 2"
  shows "get_topology md =
           (if min (ixseps1 md) (ixseps2 md) \<ge> nx md - 1 then ''core''
            else if min (ixseps1 md) (ixseps2 md) \<le> 0 then ''sol''
            else ''limiter'')"
  using assms by (simp add: get_topology_def Let_def)

theorem get_topology_no_legs_witness:
  "jyseps2_1 limiter_grid = jyseps1_2 limiter_grid \<and> jyseps1_1 limiter_grid \<le> 0
   \<and> jyseps2_2 limiter_grid \<ge> ny limiter_grid - 1 \<and> nx limiter_grid \<ge> 2
   \<and> get_topology limiter_grid = ''limiter''
   \<and> get_topology core_grid = ''core''
   \<and> get_topology sol_grid = ''sol''"
  using get_topology_no_legs [of limiter_grid] get_topology_no_legs [of core_grid]
    get_topology_no_legs [of sol_grid]
  by (simp add: limiter_grid_def core_grid_def sol_grid_def)

subsection \<open>Preprocessing\<close>

lemma in_range_clamp:
  "lower \<le> upper \<Longrightarrow> in_range val lower upper = spec_clamp lower upper val"
  by (simp add: in_range_def spec_clamp_def)

lemma order_vars_ordered: "order_vars a b = spec_ordered a b"
  by (simp add: order_vars_def spec_ordered_def min_def max_def)

lemma spec_ordered_le: "spec_ordered a b = (c, d) \<Longrightarrow> c + 1 \<le> d + 1"
  by (auto simp add: spec_ordered_def)

lemma ybndry_flag: "k = 0 \<or> k = 1 \<Longrightarrow> k * m = (if k \<noteq> 0 then m else (0::int))"
  by auto

text \<open>
  C6. The preprocessing of \<open>_create_regions_toroidal\<close> computes what the reference
  pipeline of the specification computes, for grid sizes \<open>nx \<ge> 0\<close> and \<open>ny \<ge> 1\<close> (so that
  the intervals clamped into are not empty) and a \<open>keep_yboundaries\<close> flag that is 0 or 1.
\<close>

theorem adjusted_indices_refines_spec:
  assumes "0 \<le> nx md" and "1 \<le> ny md"
    and "keep_yboundaries md = 0 \<or> keep_yboundaries md = 1"
  shows "adjusted_indices md = spec_pipeline md"
proof -
  have ny: "0 \<le> ny md - 1" using assms(2) by simp
  obtain j21 j12 where o: "spec_ordered (spec_clamp 0 (ny md - 1) (jyseps2_1 md))
      (spec_clamp 0 (ny md - 1) (jyseps1_2 md)) = (j21, j12)"
    by (cases "spec_ordered (spec_clamp 0 (ny md - 1) (jyseps2_1 md))
      (spec_clamp 0 (ny md - 1) (jyseps1_2 md))")
  have le: "j21 + 1 \<le> j12 + 1" using o by (rule spec_ordered_le)
  show ?thesis
    unfolding adjusted_indices_def spec_pipeline_def Let_def
    by (simp add: in_range_clamp [OF assms(1)] in_range_clamp [OF ny] order_vars_ordered o
        in_range_clamp [OF le] ybndry_flag [OF assms(3)] split: prod.splits)
qed

theorem adjusted_indices_refines_spec_witness:
  "0 \<le> nx double_null_grid \<and> 1 \<le> ny double_null_grid
   \<and> (keep_yboundaries double_null_grid = 0 \<or> keep_yboundaries double_null_grid = 1)
   \<and> spec_pipeline double_null_grid =
       \<lparr>ixs1 = 5, ixs2 = 9, nx' = 12, jys11 = 3, jys21 = 7, nyinner = 12,
        jys12 = 15, jys22 = 19, ny' = 24\<rparr>
   \<and> adjusted_indices double_null_grid = spec_pipeline double_null_grid"
  using adjusted_indices_refines_spec [of double_null_grid]
  by (simp add: double_null_grid_def spec_pipeline_def spec_clamp_def spec_ordered_def)

subsection \<open>Coverage of the domain\<close>

lemma cdn_ixseps_equal:
  "get_topology md = ''connected-double-null'' \<Longrightarrow> ixseps1 md = ixseps2 md"
  by (simp add: get_topology_def Let_def split: if_splits)

lemma adjusted_ixs_equal:
  "ixseps1 md = ixseps2 md \<Longrightarrow> ixs1 (adjusted_indices md) = ixs2 (adjusted_indices md)"
  by (simp add: adjusted_indices_def Let_def order_vars_def)

text \<open>
  A row of three regions over the same y-band whose x-ranges are \<open>[0, a1)\<close>, \<open>[a1, a2)\<close>
  and \<open>[a2, a3)\<close> holds an index pair once if the pair lies in \<open>[0, a3)\<close> times the band,
  and not at all otherwise. A row of two regions likewise.
\<close>

lemma covering_row3:
  assumes "0 \<le> a1" and "a1 \<le> a2" and "a2 \<le> a3"
  shows "length (regions_covering
           ((k1, \<lparr>name = n1, xinner_ind = 0, xouter_ind = a1, ylower_ind = yl, yupper_ind = yu,
                 connection_inner = i1, connection_outer = o1,
                 connection_lower = l1, connection_upper = u1\<rparr>)
            # (k2, \<lparr>name = n2, xinner_ind = a1, xouter_ind = a2, ylower_ind = yl, yupper_ind = yu,
                 connection_inner = i2, connection_outer = o2,
                 connection_lower = l2, connection_upper = u2\<rparr>)
            # (k3, \<lparr>name = n3, xinner_ind = a2, xouter_ind = a3, ylower_ind = yl, yupper_ind = yu,
                 connection_inner = i3, connection_outer = o3,
                 connection_lower = l3, connection_upper = u3\<rparr>)
            # rest) x y)
         = (if (0 \<le> x \<and> x < a3) \<and> yl \<le> y \<and> y < yu then 1 else 0)
           + length (regions_covering rest x y)"
  using assms by (auto simp add: region_contains_def)

lemma covering_row2:
  assumes "0 \<le> a1" and "a1 = a1'" and "a1' \<le> a2"
  shows "length (regions_covering
           ((k1, \<lparr>name = n1, xinner_ind = 0, xouter_ind = a1, ylower_ind = yl, yupper_ind = yu,
                 connection_inner = i1, connection_outer = o1,
                 connection_lower = l1, connection_upper = u1\<rparr>)
            # (k2, \<lparr>name = n2, xinner_ind = a1', xouter_ind = a2, ylower_ind = yl, yupper_ind = yu,
                 connection_inner = i2, connection_outer = o2,
                 connection_lower = l2, connection_upper = u2\<rparr>)
            # rest) x y)
         = (if (0 \<le> x \<and> x < a2) \<and> yl \<le> y \<and> y < yu then 1 else 0)
           + length (regions_covering rest x y)"
  using assms by (auto simp add: region_contains_def)

text \<open>Consecutive y-bands add up to the whole y-range.\<close>

lemma bands3:
  assumes "(0::int) \<le> b1" "b1 \<le> b2" "b2 \<le> b3"
  shows "(if X \<and> 0 \<le> y \<and> y < b1 then 1 else 0)
         + ((if X \<and> b1 \<le> y \<and> y < b2 then 1 else 0)
         + ((if X \<and> b2 \<le> y \<and> y < b3 then 1 else 0) + 0))
         = (if X \<and> 0 \<le> y \<and> y < b3 then 1 else (0::nat))"
  using assms by (cases X) auto

lemma bands4:
  assumes "(0::int) \<le> b1" "b1 \<le> b2" "b2 \<le> b3" "b3 \<le> b4"
  shows "(if X \<and> 0 \<le> y \<and> y < b1 then 1 else 0)
         + ((if X \<and> b1 \<le> y \<and> y < b2 then 1 else 0)
         + ((if X \<and> b2 \<le> y \<and> y < b3 then 1 else 0)
         + ((if X \<and> b3 \<le> y \<and> y < b4 then 1 else 0) + 0)))
         = (if X \<and> 0 \<le> y \<and> y < b4 then 1 else (0::nat))"
  using assms by (cases X) auto

lemma bands6:
  assumes "(0::int) \<le> b1" "b1 \<le> b2" "b2 \<le> b3" "b3 \<le> b4" "b4 \<le> b5" "b5 \<le> b6"
  shows "(if X \<and> 0 \<le> y \<and> y < b1 then 1 else 0)
         + ((if X \<and> b1 \<le> y \<and> y < b2 then 1 else 0)
         + ((if X \<and> b2 \<le> y \<and> y < b3 then 1 else 0)
         + ((if X \<and> b3 \<le> y \<and> y < b4 then 1 else 0)
         + ((if X \<and> b4 \<le> y \<and> y < b5 then 1 else 0)
         + ((if X \<and> b5 \<le> y \<and> y < b6 then 1 else 0) + 0)))))
         = (if X \<and> 0 \<le> y \<and> y < b6 then 1 else (0::nat))"
  using assms by (cases X) auto

lemma partition_ddn:
  assumes "create_connections wiring_disconnected_double_null
             (assign_all (table_disconnected_double_null l) []) = Inr rs"
    and "breakpoints_ordered ''disconnected-double-null'' l"
  shows "length (regions_covering rs x y) =
           (if (0 \<le> x \<and> x < nx' l) \<and> 0 \<le> y \<and> y < ny' l then 1 else 0)"
proof -
  have rs: "rs = projr (create_connections wiring_disconnected_double_null
       (assign_all (table_disconnected_double_null l) []))"
    by (simp add: assms(1))
  from assms(2) have o: "0 \<le> ixs1 l" "ixs1 l \<le> ixs2 l" "ixs2 l \<le> nx' l"
    "0 \<le> jys11 l + 1" "jys11 l + 1 \<le> jys21 l + 1" "jys21 l + 1 \<le> nyinner l"
    "nyinner l \<le> jys12 l + 1" "jys12 l + 1 \<le> jys22 l + 1" "jys22 l + 1 \<le> ny' l"
    by (simp_all add: breakpoints_ordered_def)
  show ?thesis
    unfolding rs built_disconnected_double_null sum.sel
    by (simp only: covering_row3 [OF o(1) o(2) o(3)] regions_covering.simps(1) list.size(3)
        bands6 [OF o(4-9)])
qed

lemma partition_cdn:
  assumes "create_connections wiring_connected_double_null
             (assign_all (table_connected_double_null l) []) = Inr rs"
    and "breakpoints_ordered ''connected-double-null'' l" and "ixs1 l = ixs2 l"
  shows "length (regions_covering rs x y) =
           (if (0 \<le> x \<and> x < nx' l) \<and> 0 \<le> y \<and> y < ny' l then 1 else 0)"
proof -
  have rs: "rs = projr (create_connections wiring_connected_double_null
       (assign_all (table_connected_double_null l) []))"
    by (simp add: assms(1))
  from assms(2) have o: "0 \<le> ixs1 l" "ixs2 l \<le> nx' l"
    "0 \<le> jys11 l + 1" "jys11 l + 1 \<le> jys21 l + 1" "jys21 l + 1 \<le> nyinner l"
    "nyinner l \<le> jys12 l + 1" "jys12 l + 1 \<le> jys22 l + 1" "jys22 l + 1 \<le> ny' l"
    by (simp_all add: breakpoints_ordered_def)
  show ?thesis
    unfolding rs built_connected_double_null sum.sel
    by (simp only: covering_row2 [OF o(1) assms(3) o(2)] regions_covering.simps(1) list.size(3)
        bands6 [OF o(3-8)])
qed

lemma partition_single_null:
  assumes "create_connections wiring_single_null
             (assign_all (table_single_null l) []) = Inr rs"
    and "breakpoints_ordered ''single-null'' l"
  shows "length (regions_covering rs x y) =
           (if (0 \<le> x \<and> x < nx' l) \<and> 0 \<le> y \<and> y < ny' l then 1 else 0)"
proof -
  have rs: "rs = projr (create_connections wiring_single_null
       (assign_all (table_single_null l) []))"
    by (simp add: assms(1))
  from assms(2) have o: "0 \<le> ixs1 l" "ixs1 l = ixs2 l" "ixs2 l \<le> nx' l" "ixs1 l \<le> nx' l"
    "0 \<le> jys11 l + 1" "jys11 l + 1 \<le> jys22 l + 1" "jys22 l + 1 \<le> ny' l"
    by (simp_all add: breakpoints_ordered_def)
  show ?thesis
    unfolding rs built_single_null sum.sel
    by (simp only: covering_row2 [OF o(1) o(2) o(3)] covering_row2 [OF o(1) refl o(4)]
        regions_covering.simps(1) list.size(3) bands3 [OF o(5-7)])
qed

lemma partition_xpoint:
  assumes "create_connections wiring_xpoint (assign_all (table_xpoint l) []) = Inr rs"
    and "breakpoints_ordered ''xpoint'' l"
  shows "length (regions_covering rs x y) =
           (if (0 \<le> x \<and> x < nx' l) \<and> 0 \<le> y \<and> y < ny' l then 1 else 0)"
proof -
  have rs: "rs = projr (create_connections wiring_xpoint (assign_all (table_xpoint l) []))"
    by (simp add: assms(1))
  from assms(2) have o: "0 \<le> ixs1 l" "ixs1 l \<le> nx' l"
    "0 \<le> jys11 l + 1" "jys11 l + 1 \<le> nyinner l" "nyinner l \<le> jys22 l + 1"
    "jys22 l + 1 \<le> ny' l"
    by (simp_all add: breakpoints_ordered_def)
  show ?thesis
    unfolding rs built_xpoint sum.sel
    by (simp only: covering_row2 [OF o(1) refl o(2)] regions_covering.simps(1) list.size(3)
        bands4 [OF o(3-6)])
qed

lemma partition_limiter:
  assumes "create_connections wiring_limiter (assign_all (table_limiter l) []) = Inr rs"
    and "breakpoints_ordered ''limiter'' l"
  shows "length (regions_covering rs x y) =
           (if (0 \<le> x \<and> x < nx' l) \<and> 0 \<le> y \<and> y < ny' l then 1 else 0)"
  using assms unfolding built_limiter
  by (auto simp add: region_contains_def breakpoints_ordered_def)

lemma partition_core:
  assumes "create_connections wiring_core (assign_all (table_core l) []) = Inr rs"
  shows "length (regions_covering rs x y) =
           (if (0 \<le> x \<and> x < nx' l) \<and> 0 \<le> y \<and> y < ny' l then 1 else 0)"
  using assms unfolding built_core
  by (auto simp add: region_contains_def)

lemma partition_sol:
  assumes "create_connections wiring_sol (assign_all (table_sol l) []) = Inr rs"
  shows "length (regions_covering rs x y) =
           (if (0 \<le> x \<and> x < nx' l) \<and> 0 \<le> y \<and> y < ny' l then 1 else 0)"
  using assms unfolding built_sol
  by (auto simp add: region_contains_def)

lemma double_null_grid_topology: "get_topology double_null_grid = ''disconnected-double-null''"
  by (simp add: get_topology_def double_null_grid_def)

lemma double_null_grid_indices:
  "adjusted_indices double_null_grid =
     \<lparr>ixs1 = 5, ixs2 = 9, nx' = 12, jys11 = 3, jys21 = 7, nyinner = 12,
      jys12 = 15, jys22 = 19, ny' = 24\<rparr>"
  by (simp add: adjusted_indices_def double_null_grid_def in_range_def order_vars_def)

lemma unordered_grid_topology: "get_topology unordered_grid = ''disconnected-double-null''"
  by (simp add: get_topology_def unordered_grid_def double_null_grid_def)

lemma unordered_grid_indices:
  "adjusted_indices unordered_grid =
     \<lparr>ixs1 = 5, ixs2 = 9, nx' = 12, jys11 = 9, jys21 = 7, nyinner = 12,
      jys12 = 15, jys22 = 19, ny' = 24\<rparr>"
  by (simp add: adjusted_indices_def unordered_grid_def double_null_grid_def
        in_range_def order_vars_def)

lemma crossed_grid_topology: "get_topology crossed_grid = ''disconnected-double-null''"
  by (simp add: get_topology_def crossed_grid_def double_null_grid_def)

lemma crossed_grid_indices:
  "adjusted_indices crossed_grid =
     \<lparr>ixs1 = 5, ixs2 = 9, nx' = 12, jys11 = 3, jys21 = 7, nyinner = 12,
      jys12 = 15, jys22 = 13, ny' = 24\<rparr>"
  by (simp add: adjusted_indices_def crossed_grid_def double_null_grid_def
        in_range_def order_vars_def)

lemma create_regions_returns: "\<exists>rs. create_regions_toroidal md = Inr rs"
  using get_topology_cases [of md]
  by (elim disjE)
     (simp_all only: create_disconnected_double_null create_connected_double_null
        create_single_null create_limiter create_core create_sol create_xpoint
        built_disconnected_double_null built_connected_double_null built_single_null
        built_limiter built_core built_sol built_xpoint sum.inject simp_thms)

lemma create_regions_projr:
  "create_regions_toroidal md = Inr (projr (create_regions_toroidal md))"
  using create_regions_returns [of md] by auto

text \<open>
  C2 (as amended). For every metadata for which the breakpoints read by the table of
  its topology are in non-decreasing order (\<open>breakpoints_ordered\<close>; for single-null this
  includes \<open>ixs1 = ixs2\<close> after preprocessing), the rectangles of the regions built, without
  guard cells, partition \<open>[0, nx) \<times> [0, ny)\<close> of the adjusted sizes exactly: an index pair
  inside the domain lies in exactly one region, a pair outside in none.
\<close>

theorem regions_partition_domain:
  assumes "create_regions_toroidal md = Inr rs"
    and "breakpoints_ordered (get_topology md) (adjusted_indices md)"
  shows "length (regions_covering rs x y) =
           (if (0 \<le> x \<and> x < nx' (adjusted_indices md))
               \<and> 0 \<le> y \<and> y < ny' (adjusted_indices md)
            then 1 else 0)"
  using assms(1)
proof (cases rule: create_regions_cases)
  case ddn
  then show ?thesis using assms(2) by (simp only: partition_ddn)
next
  case cdn
  have "ixs1 (adjusted_indices md) = ixs2 (adjusted_indices md)"
    using cdn(1) by (intro adjusted_ixs_equal cdn_ixseps_equal)
  with cdn show ?thesis using assms(2) by (simp only: partition_cdn)
next
  case single_null
  then show ?thesis using assms(2) by (simp only: partition_single_null)
next
  case limiter
  then show ?thesis using assms(2) by (simp only: partition_limiter)
next
  case core
  from core(2) show ?thesis by (rule partition_core)
next
  case sol
  from sol(2) show ?thesis by (rule partition_sol)
next
  case xpoint
  then show ?thesis using assms(2) by (simp only: partition_xpoint)
qed

theorem regions_partition_domain_witness:
  "create_regions_toroidal double_null_grid = Inr (projr (create_regions_toroidal double_null_grid))
   \<and> breakpoints_ordered (get_topology double_null_grid) (adjusted_indices double_null_grid)
   \<and> length (regions_covering (projr (create_regions_toroidal double_null_grid)) 6 13) = 1
   \<and> length (regions_covering (projr (create_regions_toroidal double_null_grid)) 12 13) = 0"
  using regions_partition_domain [of double_null_grid
      "projr (create_regions_toroidal double_null_grid)" 6 13]
    regions_partition_domain [of double_null_grid
      "projr (create_regions_toroidal double_null_grid)" 12 13]
  by (simp add: create_regions_projr [symmetric] double_null_grid_topology
      double_null_grid_indices breakpoints_ordered_def)

text \<open>
  C2 as stated fails: on the double-null grid with \<open>jyseps1_1 = 9\<close> above \<open>jyseps2_1 = 7\<close>
  the function returns its 18 regions, and the index pair \<open>(0, 8)\<close> of the domain lies in
  two of them.
\<close>

theorem regions_partition_counterexample:
  "\<not> isl (create_regions_toroidal unordered_grid)
   \<and> 0 \<le> (0::int) \<and> 0 < nx' (adjusted_indices unordered_grid)
   \<and> 0 \<le> (8::int) \<and> 8 < ny' (adjusted_indices unordered_grid)
   \<and> regions_covering (projr (create_regions_toroidal unordered_grid)) 0 8
       = [''lower_inner_PFR'', ''upper_inner_PFR'']"
  by (simp add: create_disconnected_double_null [OF unordered_grid_topology]
      built_disconnected_double_null unordered_grid_indices region_contains_def)

subsection \<open>Errors\<close>

text \<open>
  C8 (as amended). \<open>_create_regions_toroidal\<close> has no check of its derived ranges and
  no error for an invalid geometry: for every metadata that contains the required keys
  it returns the dictionary of regions. Its one \<open>raise\<close>, for a topology tag that none of
  the branches handles, is never reached.
\<close>

theorem create_regions_never_raises:
  "\<exists>rs. create_regions_toroidal md = Inr rs"
  by (rule create_regions_returns)

text \<open>
  C8 as stated fails: on the double-null grid with \<open>jyseps2_2 = 13\<close> below
  \<open>jyseps1_2 = 15\<close> the rectangles overlap at the index pair \<open>(0, 14)\<close>, and the function
  returns them without an error.
\<close>

theorem invalid_geometry_counterexample:
  "\<not> isl (create_regions_toroidal crossed_grid)
   \<and> 0 \<le> (0::int) \<and> 0 < nx' (adjusted_indices crossed_grid)
   \<and> 0 \<le> (14::int) \<and> 14 < ny' (adjusted_indices crossed_grid)
   \<and> regions_covering (projr (create_regions_toroidal crossed_grid)) 0 14
       = [''upper_outer_PFR'', ''lower_outer_PFR'']"
  by (simp add: create_disconnected_double_null [OF crossed_grid_topology]
      built_disconnected_double_null crossed_grid_indices region_contains_def)

subsection \<open>Connections\<close>

lemma single_null_grid_topology: "get_topology single_null_grid = ''single-null''"
  by (simp add: get_topology_def single_null_grid_def)

lemma single_null_grid_indices:
  "adjusted_indices single_null_grid =
     \<lparr>ixs1 = 4, ixs2 = 4, nx' = 8, jys11 = 3, jys21 = 7, nyinner = 8,
      jys12 = 7, jys22 = 11, ny' = 16\<rparr>"
  by (simp add: adjusted_indices_def single_null_grid_def in_range_def order_vars_def)

lemma xpoint_grid_topology: "get_topology xpoint_grid = ''xpoint''"
  by (simp add: get_topology_def xpoint_grid_def)

lemma xpoint_grid_indices:
  "adjusted_indices xpoint_grid =
     \<lparr>ixs1 = 4, ixs2 = 4, nx' = 8, jys11 = 3, jys21 = 3, nyinner = 8,
      jys12 = 11, jys22 = 11, ny' = 16\<rparr>"
  by (simp add: adjusted_indices_def xpoint_grid_def in_range_def order_vars_def)

lemma core_grid_topology: "get_topology core_grid = ''core''"
  by (simp add: get_topology_def core_grid_def)

lemma core_grid_indices:
  "adjusted_indices core_grid =
     \<lparr>ixs1 = 4, ixs2 = 4, nx' = 4, jys11 = 0, jys21 = 3, nyinner = 4,
      jys12 = 3, jys22 = 7, ny' = 8\<rparr>"
  by (simp add: adjusted_indices_def core_grid_def in_range_def order_vars_def)

text \<open>
  Read as dictionary keys, which is how \<open>_create_connection_x\<close> and \<open>_create_connection_y\<close>
  resolve them, the connections of every table are mutual: the keys are distinct, each
  connection of a region is the key of a region of the dictionary, and that region's
  connection on the opposite side is the key of the first.
\<close>

lemma connections_checked:
  assumes "create_regions_toroidal md = Inr rs"
  shows "distinct (map fst rs)
         \<and> (\<forall>(ka, A) \<in> set rs.
              (case connection_outer A of None \<Rightarrow> True
               | Some kb \<Rightarrow> (case map_of rs kb of None \<Rightarrow> False
                            | Some B \<Rightarrow> connection_inner B = Some ka))
              \<and> (case connection_inner A of None \<Rightarrow> True
               | Some kb \<Rightarrow> (case map_of rs kb of None \<Rightarrow> False
                            | Some B \<Rightarrow> connection_outer B = Some ka))
              \<and> (case connection_upper A of None \<Rightarrow> True
               | Some kb \<Rightarrow> (case map_of rs kb of None \<Rightarrow> False
                            | Some B \<Rightarrow> connection_lower B = Some ka))
              \<and> (case connection_lower A of None \<Rightarrow> True
               | Some kb \<Rightarrow> (case map_of rs kb of None \<Rightarrow> False
                            | Some B \<Rightarrow> connection_upper B = Some ka)))"
  using assms(1)
proof (cases rule: create_regions_cases)
  case ddn
  have rs: "rs = projr (create_connections wiring_disconnected_double_null
      (assign_all (table_disconnected_double_null (adjusted_indices md)) []))"
    by (simp add: ddn(2))
  show ?thesis
    using ddn(1) unfolding rs built_disconnected_double_null sum.sel
    by simp
next
  case cdn
  have rs: "rs = projr (create_connections wiring_connected_double_null
      (assign_all (table_connected_double_null (adjusted_indices md)) []))"
    by (simp add: cdn(2))
  show ?thesis
    using cdn(1) unfolding rs built_connected_double_null sum.sel
    by simp
next
  case single_null
  have rs: "rs = projr (create_connections wiring_single_null
      (assign_all (table_single_null (adjusted_indices md)) []))"
    by (simp add: single_null(2))
  show ?thesis
    using single_null(1) unfolding rs built_single_null sum.sel
    by simp
next
  case limiter
  have rs: "rs = projr (create_connections wiring_limiter
      (assign_all (table_limiter (adjusted_indices md)) []))"
    by (simp add: limiter(2))
  show ?thesis
    using limiter(1) unfolding rs built_limiter sum.sel
    by simp
next
  case core
  have rs: "rs = projr (create_connections wiring_core
      (assign_all (table_core (adjusted_indices md)) []))"
    by (simp add: core(2))
  show ?thesis
    using core(1) unfolding rs built_core sum.sel
    by simp
next
  case sol
  have rs: "rs = projr (create_connections wiring_sol
      (assign_all (table_sol (adjusted_indices md)) []))"
    by (simp add: sol(2))
  show ?thesis
    using sol(1) unfolding rs built_sol sum.sel
    by simp
next
  case xpoint
  have rs: "rs = projr (create_connections wiring_xpoint
      (assign_all (table_xpoint (adjusted_indices md)) []))"
    by (simp add: xpoint(2))
  show ?thesis
    using xpoint(1) unfolding rs built_xpoint sum.sel
    by simp
qed

lemma connections_symmetric_by_key:
  assumes "create_regions_toroidal md = Inr rs"
  shows "distinct (map fst rs)
         \<and> (\<forall>(ka, A) \<in> set rs. \<forall>kb.
              (connection_outer A = Some kb \<longrightarrow>
                 (\<exists>B. map_of rs kb = Some B \<and> connection_inner B = Some ka))
              \<and> (connection_inner A = Some kb \<longrightarrow>
                 (\<exists>B. map_of rs kb = Some B \<and> connection_outer B = Some ka))
              \<and> (connection_upper A = Some kb \<longrightarrow>
                 (\<exists>B. map_of rs kb = Some B \<and> connection_lower B = Some ka))
              \<and> (connection_lower A = Some kb \<longrightarrow>
                 (\<exists>B. map_of rs kb = Some B \<and> connection_upper B = Some ka)))"
  using connections_checked [OF assms]
  by (fastforce split: option.splits)

text \<open>
  C4. On the single-null grid the connections are not mutual by name. The region named
  \<open>lower_PFR\<close> (stored under the key \<open>outer_PFR\<close>) has \<open>connection_lower = inner_PFR\<close>, the
  name of a region, but that region's \<open>connection_upper\<close> is \<open>outer_PFR\<close>, which is not
  \<open>lower_PFR\<close> and is the name of no region of the dictionary.
\<close>

theorem single_null_names_one_sided:
  "map_option name (map_of (projr (create_regions_toroidal single_null_grid)) ''inner_PFR'')
     = Some ''inner_PFR''
   \<and> map_option connection_upper
         (map_of (projr (create_regions_toroidal single_null_grid)) ''inner_PFR'')
     = Some (Some ''outer_PFR'')
   \<and> map_option name (map_of (projr (create_regions_toroidal single_null_grid)) ''outer_PFR'')
     = Some ''lower_PFR''
   \<and> map_option connection_lower
         (map_of (projr (create_regions_toroidal single_null_grid)) ''outer_PFR'')
     = Some (Some ''inner_PFR'')
   \<and> map (name \<circ> snd) (projr (create_regions_toroidal single_null_grid))
     = [''inner_PFR'', ''inner_SOL'', ''core'', ''SOL'', ''lower_PFR'', ''lower_SOL'']"
  by (simp add: create_single_null [OF single_null_grid_topology] built_single_null)

lemma seams_checked:
  assumes "create_regions_toroidal md = Inr rs"
  shows "\<forall>(ka, A) \<in> set rs.
           (case connection_outer A of None \<Rightarrow> True
            | Some kb \<Rightarrow> (case map_of rs kb of None \<Rightarrow> False
                | Some B \<Rightarrow>
                    ylower_ind A = ylower_ind B \<and> yupper_ind A = yupper_ind B
                    \<and> (\<not> (get_topology md = ''single-null'' \<and> ka = ''core'') \<longrightarrow>
                         xouter_ind A = xinner_ind B)))
           \<and> (case connection_upper A of None \<Rightarrow> True
            | Some kb \<Rightarrow> (case map_of rs kb of None \<Rightarrow> False
                | Some B \<Rightarrow>
                    (\<not> wrap_around ka kb \<longrightarrow> yupper_ind A = ylower_ind B)
                    \<and> (\<not> (get_topology md = ''single-null'' \<and> (ka = ''SOL'' \<or> kb = ''SOL'')) \<longrightarrow>
                         xinner_ind A = xinner_ind B \<and> xouter_ind A = xouter_ind B)))"
  using assms(1)
proof (cases rule: create_regions_cases)
  case ddn
  have rs: "rs = projr (create_connections wiring_disconnected_double_null
      (assign_all (table_disconnected_double_null (adjusted_indices md)) []))"
    by (simp add: ddn(2))
  show ?thesis
    using ddn(1) unfolding rs built_disconnected_double_null sum.sel
    by (simp add: wrap_around_def)
next
  case cdn
  have eq: "ixs1 (adjusted_indices md) = ixs2 (adjusted_indices md)"
    using cdn(1) by (intro adjusted_ixs_equal cdn_ixseps_equal)
  have rs: "rs = projr (create_connections wiring_connected_double_null
      (assign_all (table_connected_double_null (adjusted_indices md)) []))"
    by (simp add: cdn(2))
  show ?thesis
    using cdn(1) eq unfolding rs built_connected_double_null sum.sel
    by (simp add: wrap_around_def)
next
  case single_null
  have rs: "rs = projr (create_connections wiring_single_null
      (assign_all (table_single_null (adjusted_indices md)) []))"
    by (simp add: single_null(2))
  show ?thesis
    using single_null(1) unfolding rs built_single_null sum.sel
    by (simp add: wrap_around_def)
next
  case limiter
  have rs: "rs = projr (create_connections wiring_limiter
      (assign_all (table_limiter (adjusted_indices md)) []))"
    by (simp add: limiter(2))
  show ?thesis
    using limiter(1) unfolding rs built_limiter sum.sel
    by (simp add: wrap_around_def)
next
  case core
  have rs: "rs = projr (create_connections wiring_core
      (assign_all (table_core (adjusted_indices md)) []))"
    by (simp add: core(2))
  show ?thesis
    using core(1) unfolding rs built_core sum.sel
    by (simp add: wrap_around_def)
next
  case sol
  have rs: "rs = projr (create_connections wiring_sol
      (assign_all (table_sol (adjusted_indices md)) []))"
    by (simp add: sol(2))
  show ?thesis
    using sol(1) unfolding rs built_sol sum.sel
    by (simp add: wrap_around_def)
next
  case xpoint
  have rs: "rs = projr (create_connections wiring_xpoint
      (assign_all (table_xpoint (adjusted_indices md)) []))"
    by (simp add: xpoint(2))
  show ?thesis
    using xpoint(1) unfolding rs built_xpoint sum.sel
    by (simp add: wrap_around_def)
qed

text \<open>
  C3 (as amended). Let \<open>A\<close> be a region of the dictionary built and \<open>B\<close> the region stored
  under the key \<open>kb\<close>. If \<open>A.connection_outer = kb\<close> then \<open>A\<close> and \<open>B\<close> have the same y-range
  and \<open>A.xouter_ind = B.xinner_ind\<close>, the last except for the single-null connection from
  \<open>core\<close>, about which nothing is said. If \<open>A.connection_upper = kb\<close> then
  \<open>A.yupper_ind = B.ylower_ind\<close> unless the connection is one of the wrap-around
  connections (\<open>wrap_around\<close>), and \<open>A\<close> and \<open>B\<close> have the same x-range, the last except for
  the single-null connections into and out of \<open>SOL\<close>, about which nothing is said.
\<close>

theorem connected_seams_match:
  assumes "create_regions_toroidal md = Inr rs" and "(ka, A) \<in> set rs"
    and "map_of rs kb = Some B"
  shows "(connection_outer A = Some kb \<longrightarrow>
            ylower_ind A = ylower_ind B \<and> yupper_ind A = yupper_ind B
            \<and> (\<not> (get_topology md = ''single-null'' \<and> ka = ''core'') \<longrightarrow>
                 xouter_ind A = xinner_ind B))
         \<and> (connection_upper A = Some kb \<longrightarrow>
            (\<not> wrap_around ka kb \<longrightarrow> yupper_ind A = ylower_ind B)
            \<and> (\<not> (get_topology md = ''single-null'' \<and> (ka = ''SOL'' \<or> kb = ''SOL'')) \<longrightarrow>
                 xinner_ind A = xinner_ind B \<and> xouter_ind A = xouter_ind B))"
  using seams_checked [OF assms(1)] assms(2,3)
  by (fastforce split: option.splits)

theorem connected_seams_match_witness:
  "create_regions_toroidal double_null_grid
     = Inr (projr (create_regions_toroidal double_null_grid))
   \<and> (''lower_inner_intersep'', double_null_lower_inner_intersep)
       \<in> set (projr (create_regions_toroidal double_null_grid))
   \<and> (''lower_inner_SOL'', double_null_lower_inner_SOL)
       \<in> set (projr (create_regions_toroidal double_null_grid))
   \<and> map_of (projr (create_regions_toroidal double_null_grid)) ''lower_inner_SOL''
       = Some double_null_lower_inner_SOL
   \<and> map_of (projr (create_regions_toroidal double_null_grid)) ''inner_SOL''
       = Some double_null_inner_SOL
   \<and> connection_outer double_null_lower_inner_intersep = Some ''lower_inner_SOL''
   \<and> xouter_ind double_null_lower_inner_intersep = xinner_ind double_null_lower_inner_SOL
   \<and> connection_upper double_null_lower_inner_SOL = Some ''inner_SOL''
   \<and> \<not> wrap_around ''lower_inner_SOL'' ''inner_SOL''
   \<and> yupper_ind double_null_lower_inner_SOL = ylower_ind double_null_inner_SOL"
  using connected_seams_match [of double_null_grid
      "projr (create_regions_toroidal double_null_grid)"
      "''lower_inner_intersep''" double_null_lower_inner_intersep
      "''lower_inner_SOL''" double_null_lower_inner_SOL]
    connected_seams_match [of double_null_grid
      "projr (create_regions_toroidal double_null_grid)"
      "''lower_inner_SOL''" double_null_lower_inner_SOL
      "''inner_SOL''" double_null_inner_SOL]
  by (simp add: create_disconnected_double_null [OF double_null_grid_topology]
      built_disconnected_double_null double_null_grid_indices wrap_around_def
      double_null_lower_inner_intersep_def double_null_lower_inner_SOL_def
      double_null_inner_SOL_def)

text \<open>
  C3 as stated fails: on the core-only grid the region \<open>core\<close> is connected to itself in
  y, its \<open>yupper_ind\<close> is 8 and its \<open>ylower_ind\<close> is 0.
\<close>

theorem seam_counterexample:
  "map_option connection_upper (map_of (projr (create_regions_toroidal core_grid)) ''core'')
     = Some (Some ''core'')
   \<and> map_option yupper_ind (map_of (projr (create_regions_toroidal core_grid)) ''core'') = Some 8
   \<and> map_option ylower_ind (map_of (projr (create_regions_toroidal core_grid)) ''core'') = Some 0"
  by (simp add: create_core [OF core_grid_topology] built_core core_grid_indices)

subsection \<open>The tables\<close>

text \<open>
  C7 (as amended). For every metadata classified as \<open>xpoint\<close> (\<open>jyseps2_1 \<noteq> jyseps1_2\<close>,
  \<open>jyseps1_1 = jyseps2_1\<close> and \<open>jyseps1_2 = jyseps2_2\<close>) the dictionary built holds exactly 8
  regions: a PFR and a SOL region for each of the lower inner, upper inner, upper outer
  and lower outer legs, each named by its key and none of them a core region. In y the
  SOL regions are chained lower to upper on the inner side and upper to lower on the
  outer side, the PFR regions lower inner to lower outer and upper outer to upper inner,
  and no region is connected to itself.
\<close>

theorem xpoint_regions:
  assumes "jyseps2_1 md \<noteq> jyseps1_2 md" and "jyseps1_1 md = jyseps2_1 md"
    and "jyseps1_2 md = jyseps2_2 md"
  shows "get_topology md = ''xpoint''
         \<and> (\<exists>rs. create_regions_toroidal md = Inr rs
              \<and> length rs = 8
              \<and> map fst rs =
                  [''lower_inner_PFR'', ''lower_inner_SOL'', ''upper_inner_PFR'', ''upper_inner_SOL'',
                   ''upper_outer_PFR'', ''upper_outer_SOL'', ''lower_outer_PFR'', ''lower_outer_SOL'']
              \<and> map (name \<circ> snd) rs = map fst rs
              \<and> map (connection_upper \<circ> snd) rs =
                  [Some ''lower_outer_PFR'', Some ''upper_inner_SOL'', None, None,
                   Some ''upper_inner_PFR'', Some ''lower_outer_SOL'', None, None]
              \<and> map (connection_lower \<circ> snd) rs =
                  [None, None, Some ''upper_outer_PFR'', Some ''lower_inner_SOL'',
                   None, None, Some ''lower_inner_PFR'', Some ''upper_outer_SOL'']
              \<and> (\<forall>(k, r) \<in> set rs.
                    connection_upper r \<noteq> Some k \<and> connection_lower r \<noteq> Some k))"
proof -
  have t: "get_topology md = ''xpoint''"
    using assms by (simp add: get_topology_def)
  show ?thesis
    by (simp add: t create_xpoint [OF t] built_xpoint)
qed

theorem xpoint_regions_witness:
  "jyseps2_1 xpoint_grid \<noteq> jyseps1_2 xpoint_grid
   \<and> jyseps1_1 xpoint_grid = jyseps2_1 xpoint_grid
   \<and> jyseps1_2 xpoint_grid = jyseps2_2 xpoint_grid
   \<and> get_topology xpoint_grid = ''xpoint''
   \<and> map fst (projr (create_regions_toroidal xpoint_grid)) =
        [''lower_inner_PFR'', ''lower_inner_SOL'', ''upper_inner_PFR'', ''upper_inner_SOL'',
         ''upper_outer_PFR'', ''upper_outer_SOL'', ''lower_outer_PFR'', ''lower_outer_SOL'']"
  using xpoint_regions [of xpoint_grid]
  by (auto simp add: xpoint_grid_def)

text \<open>C7 as stated fails: the X-point grid is classified \<open>xpoint\<close> and gets 8 regions, not 6.\<close>

theorem xpoint_regions_counterexample:
  "get_topology xpoint_grid = ''xpoint''
   \<and> \<not> isl (create_regions_toroidal xpoint_grid)
   \<and> length (projr (create_regions_toroidal xpoint_grid)) = 8"
  by (simp add: xpoint_grid_topology create_xpoint [OF xpoint_grid_topology] built_xpoint)

text \<open>
  C10. In the dictionary built, the key of a region differs from the region's \<open>name\<close>
  exactly when the topology is single-null and the key is \<open>outer_PFR\<close> or \<open>outer_SOL\<close>;
  the regions stored under these two keys are named \<open>lower_PFR\<close> and \<open>lower_SOL\<close>.
\<close>

theorem region_key_and_name:
  assumes "create_regions_toroidal md = Inr rs"
  shows "(\<forall>(k, r) \<in> set rs.
            (name r \<noteq> k)
            = (get_topology md = ''single-null'' \<and> (k = ''outer_PFR'' \<or> k = ''outer_SOL'')))
         \<and> (get_topology md = ''single-null'' \<longrightarrow>
              map_option name (map_of rs ''outer_PFR'') = Some ''lower_PFR''
              \<and> map_option name (map_of rs ''outer_SOL'') = Some ''lower_SOL'')"
  using assms(1)
proof (cases rule: create_regions_cases)
  case ddn
  have rs: "rs = projr (create_connections wiring_disconnected_double_null
      (assign_all (table_disconnected_double_null (adjusted_indices md)) []))"
    by (simp add: ddn(2))
  show ?thesis
    using ddn(1) unfolding rs built_disconnected_double_null sum.sel
    by simp
next
  case cdn
  have rs: "rs = projr (create_connections wiring_connected_double_null
      (assign_all (table_connected_double_null (adjusted_indices md)) []))"
    by (simp add: cdn(2))
  show ?thesis
    using cdn(1) unfolding rs built_connected_double_null sum.sel
    by simp
next
  case single_null
  have rs: "rs = projr (create_connections wiring_single_null
      (assign_all (table_single_null (adjusted_indices md)) []))"
    by (simp add: single_null(2))
  show ?thesis
    using single_null(1) unfolding rs built_single_null sum.sel
    by simp
next
  case limiter
  have rs: "rs = projr (create_connections wiring_limiter
      (assign_all (table_limiter (adjusted_indices md)) []))"
    by (simp add: limiter(2))
  show ?thesis
    using limiter(1) unfolding rs built_limiter sum.sel
    by simp
next
  case core
  have rs: "rs = projr (create_connections wiring_core
      (assign_all (table_core (adjusted_indices md)) []))"
    by (simp add: core(2))
  show ?thesis
    using core(1) unfolding rs built_core sum.sel
    by simp
next
  case sol
  have rs: "rs = projr (create_connections wiring_sol
      (assign_all (table_sol (adjusted_indices md)) []))"
    by (simp add: sol(2))
  show ?thesis
    using sol(1) unfolding rs built_sol sum.sel
    by simp
next
  case xpoint
  have rs: "rs = projr (create_connections wiring_xpoint
      (assign_all (table_xpoint (adjusted_indices md)) []))"
    by (simp add: xpoint(2))
  show ?thesis
    using xpoint(1) unfolding rs built_xpoint sum.sel
    by simp
qed

theorem region_key_and_name_witness:
  "create_regions_toroidal single_null_grid
     = Inr (projr (create_regions_toroidal single_null_grid))
   \<and> (''outer_PFR'', single_null_outer_PFR)
       \<in> set (projr (create_regions_toroidal single_null_grid))
   \<and> get_topology single_null_grid = ''single-null''
   \<and> name single_null_outer_PFR \<noteq> ''outer_PFR''
   \<and> map_option name (map_of (projr (create_regions_toroidal single_null_grid)) ''outer_SOL'')
       = Some ''lower_SOL''"
  using region_key_and_name [of single_null_grid
      "projr (create_regions_toroidal single_null_grid)"]
  by (simp add: create_single_null [OF single_null_grid_topology] built_single_null
      single_null_grid_indices single_null_outer_PFR_def)

end
